theory Spec2Isabelle
  imports Complex_Main
begin

section \<open>Values, tables and errors\<close>

text \<open>
  The statistics pages of the application work on pandas tables. A table is modelled
  column by column, as pandas stores it. Floating-point numbers (float32 and float64) are
  modelled as real numbers: rounding and the special value NaN are outside the model.
  Every exception the Python code can raise is a value of type \<open>error\<close>.
  \<open>UnequalGroupSizeError\<close> and \<open>DegenerateInputError\<close> are the error classes named by
  the specification; no source file under \<^verbatim>\<open>src/\<close> defines or raises them.
\<close>

datatype error =
    KeyError
  | IndexError
  | ValueError
  | TypeError
  | DegenerateInputError
  | UnequalGroupSizeError
  | LibraryError string

datatype series = Nums "real list" | Strs "string list"

type_synonym frame = "(string \<times> series) list"

type_synonym num_table = "(string \<times> real list) list"

type_synonym str_table = "(string \<times> string list) list"

text \<open>
  \<^verbatim>\<open>st.session_state\<close>: the cleaned feature table \<^verbatim>\<open>data\<close> (one numeric column per
  feature, one row per sample) and the metadata table \<^verbatim>\<open>md\<close> (one column per attribute,
  one row per sample). Both tables carry the same sample index, so rows are aligned by
  position.
\<close>

record session =
  data :: num_table
  md :: str_table

definition concat_axis1 :: "num_table \<Rightarrow> str_table \<Rightarrow> frame" where
  "concat_axis1 d m = map (\<lambda>(n, v). (n, Nums v)) d @ map (\<lambda>(n, v). (n, Strs v)) m"

text \<open>
  \<^verbatim>\<open>df[name]\<close>: a missing label raises KeyError. A label carried by several columns
  selects a sub-table in pandas, which the statistics code does not expect; the model
  stops there with ValueError.
\<close>

definition getitem :: "frame \<Rightarrow> string \<Rightarrow> error + series" where
  "getitem df name =
     (case filter (\<lambda>c. fst c = name) df of
        [] \<Rightarrow> Inl KeyError
      | [c] \<Rightarrow> Inr (snd c)
      | _ \<Rightarrow> Inl ValueError)"

text \<open>Boolean-mask selection of rows, \<^verbatim>\<open>xs[mask]\<close>.\<close>

definition select :: "bool list \<Rightarrow> 'a list \<Rightarrow> 'a list" where
  "select keep xs = map snd (filter fst (zip keep xs))"

fun series_select :: "bool list \<Rightarrow> series \<Rightarrow> series" where
  "series_select keep (Nums xs) = Nums (select keep xs)"
| "series_select keep (Strs xs) = Strs (select keep xs)"

definition frame_select :: "bool list \<Rightarrow> frame \<Rightarrow> frame" where
  "frame_select keep df = map (\<lambda>(n, s). (n, series_select keep s)) df"

text \<open>
  \<^verbatim>\<open>sort_values\<close>: pandas computes the positions that sort the key column ascending and
  takes every column at these positions. The sort is modelled by insertion sort, which
  keeps tied rows in their order; the default sort of pandas does not promise that, so
  only sortedness and the alignment of the columns are drawn from this definition.
\<close>

definition argsort :: "real list \<Rightarrow> nat list" where
  "argsort ks = map snd (sort_key fst (zip ks [0..<length ks]))"

definition take_rows :: "nat list \<Rightarrow> 'a list \<Rightarrow> 'a list" where
  "take_rows idx xs = map (\<lambda>i. xs ! i) idx"

text \<open>
  Modelled from the spec: \<^verbatim>\<open>pg.multicomp(pvals, method="bonf")[1]\<close>, the Bonferroni
  correction of the statistics library, which is not among the sources. The
  specification gives \<open>corrected_i = min(1, p_i * n)\<close> with \<open>n\<close> the number of tests in
  the batch.
\<close>

definition multicomp_bonf :: "real list \<Rightarrow> real list" where
  "multicomp_bonf pvals = map (\<lambda>p. min 1 (p * real (length pvals))) pvals"

text \<open>A numpy field of dtype \<^verbatim>\<open>U100\<close> keeps the first 100 characters of a string.\<close>

definition U100 :: "string \<Rightarrow> string" where
  "U100 s = take 100 s"

text \<open>\<^verbatim>\<open>s.replace("ATTRIBUTE_", "")\<close>: every occurrence is removed, left to right.\<close>

fun remove_sub :: "string \<Rightarrow> nat \<Rightarrow> string \<Rightarrow> string" where
  "remove_sub old k [] = []"
| "remove_sub old k (c # cs) =
     (if 0 < k then remove_sub old (k - 1) cs
      else if old \<noteq> [] \<and> take (length old) (c # cs) = old
        then remove_sub old (length old - 1) cs
      else c # remove_sub old 0 cs)"

definition strip_attribute :: "string \<Rightarrow> string" where
  "strip_attribute s = remove_sub ''ATTRIBUTE_'' 0 s"

section \<open>ANOVA (\<^verbatim>\<open>src/anova.py\<close>)\<close>

text \<open>
  \<^verbatim>\<open>pg.anova\<close> is a function of the statistics library; it is a parameter of the model.
  Given the table, the dependent variable and the grouping column it returns the
  uncorrected p-value and the F statistic of the grouping row, or raises.
\<close>

type_synonym pg_anova = "frame \<Rightarrow> string \<Rightarrow> string \<Rightarrow> string + (real \<times> real)"

fun gen_anova_data ::
  "pg_anova \<Rightarrow> frame \<Rightarrow> string list \<Rightarrow> string \<Rightarrow> error + (string \<times> real \<times> real) list" where
  "gen_anova_data lib df [] groups_col = Inr []"
| "gen_anova_data lib df (col # cols) groups_col =
     (case lib df col groups_col of
        Inl e \<Rightarrow> Inl (LibraryError e)
      | Inr (p, f) \<Rightarrow>
          (case gen_anova_data lib df cols groups_col of
             Inl e \<Rightarrow> Inl e
           | Inr rest \<Rightarrow> Inr ((col, p, f) # rest)))"

text \<open>
  The ANOVA result table. The columns \<^verbatim>\<open>p_bonferroni\<close> and \<^verbatim>\<open>significant\<close> are absent
  (\<open>None\<close>) until \<^verbatim>\<open>add_bonferroni_to_anova\<close> inserts them.
\<close>

record anova_df =
  an_metabolite :: "string list"
  an_p :: "real list"
  an_F :: "real list"
  an_p_bonferroni :: "real list option"
  an_significant :: "bool list option"

text \<open>
  \<^verbatim>\<open>pd.DataFrame(np.fromiter(..., dtype=[("metabolite", "U100"), ("p", "f"), ("F", "f")]))\<close>
\<close>

definition anova_fromiter :: "(string \<times> real \<times> real) list \<Rightarrow> anova_df" where
  "anova_fromiter recs =
     \<lparr> an_metabolite = map (\<lambda>(m, p, f). U100 m) recs,
       an_p = map (\<lambda>(m, p, f). p) recs,
       an_F = map (\<lambda>(m, p, f). f) recs,
       an_p_bonferroni = None,
       an_significant = None \<rparr>"

definition anova_sort_values_p :: "anova_df \<Rightarrow> anova_df" where
  "anova_sort_values_p df =
     (let idx = argsort (an_p df) in
      \<lparr> an_metabolite = take_rows idx (an_metabolite df),
        an_p = take_rows idx (an_p df),
        an_F = take_rows idx (an_F df),
        an_p_bonferroni = map_option (take_rows idx) (an_p_bonferroni df),
        an_significant = map_option (take_rows idx) (an_significant df) \<rparr>)"

definition add_bonferroni_to_anova :: "anova_df \<Rightarrow> anova_df" where
  "add_bonferroni_to_anova df =
     (let df1 = (if an_p_bonferroni df = None
                 then df\<lparr>an_p_bonferroni := Some (multicomp_bonf (an_p df))\<rparr>
                 else df);
          df2 = (if an_significant df1 = None
                 then df1\<lparr>an_significant :=
                        Some (map (\<lambda>c. c < 0.05) (the (an_p_bonferroni df1)))\<rparr>
                 else df1)
      in anova_sort_values_p df2)"

definition anova :: "pg_anova \<Rightarrow> session \<Rightarrow> num_table \<Rightarrow> string \<Rightarrow> error + anova_df" where
  "anova lib st df attribute =
     (case gen_anova_data lib (concat_axis1 df (md st)) (map fst df) attribute of
        Inl e \<Rightarrow> Inl e
      | Inr recs \<Rightarrow> Inr (add_bonferroni_to_anova (anova_fromiter recs)))"

text \<open>
  Post-hoc Tukey test. \<^verbatim>\<open>pg.pairwise_tukey\<close> is a function of the statistics library
  and a parameter of the model: given the table, the dependent variable and the grouping
  column it returns one row per compared pair of levels, or raises.
\<close>

record tukey_lib_row =
  lr_diff :: real
  lr_p_tukey :: real
  lr_A :: string
  lr_B :: string
  lr_mean_A :: real
  lr_mean_B :: real

type_synonym pg_pairwise_tukey = "frame \<Rightarrow> string \<Rightarrow> string \<Rightarrow> string + tukey_lib_row list"

text \<open>The tuple that \<^verbatim>\<open>gen_pairwise_tukey\<close> yields for one metabolite.\<close>

record tukey_record =
  tr_metabolite :: string
  tr_diff :: real
  tr_p :: real
  tr_attribute :: string
  tr_A :: string
  tr_B :: string
  tr_mean_A :: real
  tr_mean_B :: real

text \<open>\<^verbatim>\<open>tukey.loc[0, ...]\<close> raises KeyError when the library returned no row.\<close>

fun gen_pairwise_tukey ::
  "pg_pairwise_tukey \<Rightarrow> frame \<Rightarrow> string list \<Rightarrow> string \<Rightarrow> error + tukey_record list" where
  "gen_pairwise_tukey lib df [] attribute = Inr []"
| "gen_pairwise_tukey lib df (metabolite # metabolites) attribute =
     (case lib df metabolite attribute of
        Inl e \<Rightarrow> Inl (LibraryError e)
      | Inr [] \<Rightarrow> Inl KeyError
      | Inr (r # _) \<Rightarrow>
          (case gen_pairwise_tukey lib df metabolites attribute of
             Inl e \<Rightarrow> Inl e
           | Inr rest \<Rightarrow>
               Inr (\<lparr> tr_metabolite = metabolite,
                      tr_diff = lr_diff r,
                      tr_p = lr_p_tukey r,
                      tr_attribute = strip_attribute attribute,
                      tr_A = lr_A r,
                      tr_B = lr_B r,
                      tr_mean_A = lr_mean_A r,
                      tr_mean_B = lr_mean_B r \<rparr> # rest)))"

record tukey_df =
  tk_stats_metabolite :: "string list"
  tk_diff :: "real list"
  tk_stats_p :: "real list"
  tk_stats_p_bonferroni :: "real list option"
  tk_stats_significant :: "bool list option"
  tk_attribute :: "string list"
  tk_A :: "string list"
  tk_B :: "string list"
  tk_mean_A :: "real list"
  tk_mean_B :: "real list"

definition tukey_fromiter :: "tukey_record list \<Rightarrow> tukey_df" where
  "tukey_fromiter recs =
     \<lparr> tk_stats_metabolite = map (\<lambda>r. U100 (tr_metabolite r)) recs,
       tk_diff = map tr_diff recs,
       tk_stats_p = map tr_p recs,
       tk_stats_p_bonferroni = None,
       tk_stats_significant = None,
       tk_attribute = map (\<lambda>r. U100 (tr_attribute r)) recs,
       tk_A = map (\<lambda>r. U100 (tr_A r)) recs,
       tk_B = map (\<lambda>r. U100 (tr_B r)) recs,
       tk_mean_A = map tr_mean_A recs,
       tk_mean_B = map tr_mean_B recs \<rparr>"

definition tukey_sort_values_stats_p :: "tukey_df \<Rightarrow> tukey_df" where
  "tukey_sort_values_stats_p tk =
     (let idx = argsort (tk_stats_p tk) in
      \<lparr> tk_stats_metabolite = take_rows idx (tk_stats_metabolite tk),
        tk_diff = take_rows idx (tk_diff tk),
        tk_stats_p = take_rows idx (tk_stats_p tk),
        tk_stats_p_bonferroni = map_option (take_rows idx) (tk_stats_p_bonferroni tk),
        tk_stats_significant = map_option (take_rows idx) (tk_stats_significant tk),
        tk_attribute = take_rows idx (tk_attribute tk),
        tk_A = take_rows idx (tk_A tk),
        tk_B = take_rows idx (tk_B tk),
        tk_mean_A = take_rows idx (tk_mean_A tk),
        tk_mean_B = take_rows idx (tk_mean_B tk) \<rparr>)"

text \<open>
  Inside the guard both columns are inserted; \<^verbatim>\<open>insert\<close> raises ValueError when the
  column \<^verbatim>\<open>stats_significant\<close> is already there. The table is sorted only inside the
  guard.
\<close>

definition add_bonferroni_to_tukeys :: "tukey_df \<Rightarrow> error + tukey_df" where
  "add_bonferroni_to_tukeys tk =
     (if tk_stats_p_bonferroni tk = None then
        (let bonf = multicomp_bonf (tk_stats_p tk) in
         if tk_stats_significant tk \<noteq> None then Inl ValueError
         else Inr (tukey_sort_values_stats_p
                (tk\<lparr>tk_stats_p_bonferroni := Some bonf,
                    tk_stats_significant := Some (map (\<lambda>c. c < 0.05) bonf)\<rparr>)))
      else Inr tk)"

text \<open>\<^verbatim>\<open>table.loc[:, names]\<close>: the columns with these labels, KeyError for a missing label.\<close>

fun loc_columns :: "num_table \<Rightarrow> string list \<Rightarrow> error + num_table" where
  "loc_columns tbl [] = Inr []"
| "loc_columns tbl (name # names) =
     (case filter (\<lambda>c. fst c = name) tbl of
        [] \<Rightarrow> Inl KeyError
      | cs \<Rightarrow> (case loc_columns tbl names of
                 Inl e \<Rightarrow> Inl e
               | Inr rest \<Rightarrow> Inr (cs @ rest)))"

text \<open>\<^verbatim>\<open>series.isin(elements)\<close>; a number is never one of the level labels.\<close>

fun isin :: "series \<Rightarrow> string list \<Rightarrow> bool list" where
  "isin (Strs vs) elements = map (\<lambda>v. v \<in> set elements) vs"
| "isin (Nums vs) elements = map (\<lambda>v. False) vs"

definition tukey ::
  "pg_pairwise_tukey \<Rightarrow> session \<Rightarrow> anova_df \<Rightarrow> string \<Rightarrow> string list \<Rightarrow> error + tukey_df" where
  "tukey lib st df attribute elements =
     (case an_significant df of
        None \<Rightarrow> Inl KeyError
      | Some sig \<Rightarrow>
          (let significant_metabolites = select sig (an_metabolite df) in
           case loc_columns (data st) significant_metabolites of
             Inl e \<Rightarrow> Inl e
           | Inr cols \<Rightarrow>
               (case filter (\<lambda>c. fst c = attribute) (md st) of
                  [] \<Rightarrow> Inl KeyError
                | mcols \<Rightarrow>
                    (let dat = concat_axis1 cols mcols in
                     case getitem dat attribute of
                       Inl e \<Rightarrow> Inl e
                     | Inr levels \<Rightarrow>
                         (let dat2 = frame_select (isin levels elements) dat in
                          case gen_pairwise_tukey lib dat2 significant_metabolites attribute of
                            Inl e \<Rightarrow> Inl e
                          | Inr recs \<Rightarrow> add_bonferroni_to_tukeys (tukey_fromiter recs))))))"

section \<open>t-test (\<^verbatim>\<open>src/ttest.py\<close>)\<close>

text \<open>
  \<^verbatim>\<open>pg.ttest\<close> is a function of the statistics library and a parameter of the model:
  given the two vectors and the \<^verbatim>\<open>paired\<close> flag it returns the statistic \<^verbatim>\<open>T\<close> and the
  p-value \<^verbatim>\<open>p-val\<close>, or raises. The source passes no other argument to it.
\<close>

type_synonym pg_ttest = "real list \<Rightarrow> real list \<Rightarrow> bool \<Rightarrow> string + (real \<times> real)"

definition py_index :: "'a list \<Rightarrow> nat \<Rightarrow> error + 'a" where
  "py_index xs i = (if i < length xs then Inr (xs ! i) else Inl IndexError)"

text \<open>\<^verbatim>\<open>series == label\<close>; a number is never equal to a group label.\<close>

fun eq_mask :: "series \<Rightarrow> string \<Rightarrow> bool list" where
  "eq_mask (Strs vs) g = map (\<lambda>v. v = g) vs"
| "eq_mask (Nums vs) g = map (\<lambda>v. False) vs"

text \<open>\<^verbatim>\<open>df[col][df[ttest_attribute] == target_groups[i]]\<close>\<close>

definition group_values :: "frame \<Rightarrow> string \<Rightarrow> string \<Rightarrow> string list \<Rightarrow> nat \<Rightarrow> error + real list" where
  "group_values df col ttest_attribute target_groups i =
     (case getitem df col of
        Inl e \<Rightarrow> Inl e
      | Inr c \<Rightarrow>
          (case getitem df ttest_attribute of
             Inl e \<Rightarrow> Inl e
           | Inr a \<Rightarrow>
               (case py_index target_groups i of
                  Inl e \<Rightarrow> Inl e
                | Inr g \<Rightarrow>
                    (case c of
                       Nums xs \<Rightarrow> Inr (select (eq_mask a g) xs)
                     | Strs xs \<Rightarrow> Inl TypeError))))"

fun ttest_loop ::
  "pg_ttest \<Rightarrow> frame \<Rightarrow> string list \<Rightarrow> string \<Rightarrow> string list \<Rightarrow> bool
     \<Rightarrow> error + (string \<times> real \<times> real) list" where
  "ttest_loop lib df [] ttest_attribute target_groups paired = Inr []"
| "ttest_loop lib df (col # cols) ttest_attribute target_groups paired =
     (case group_values df col ttest_attribute target_groups 0 of
        Inl e \<Rightarrow> Inl e
      | Inr group1 \<Rightarrow>
          (case group_values df col ttest_attribute target_groups 1 of
             Inl e \<Rightarrow> Inl e
           | Inr group2 \<Rightarrow>
               (case lib group1 group2 paired of
                  Inl e \<Rightarrow> Inl (LibraryError e)
                | Inr (t, p) \<Rightarrow>
                    (case ttest_loop lib df cols ttest_attribute target_groups paired of
                       Inl e \<Rightarrow> Inl e
                     | Inr rest \<Rightarrow> Inr ((col, t, p) # rest)))))"

record ttest_df =
  tt_metabolite :: "string list"
  tt_T :: "real list"
  tt_p_val :: "real list"
  tt_p_bonf :: "real list"
  tt_significance :: "bool list"
  tt_attribute :: "string list"
  tt_A :: "string list"
  tt_B :: "string list"

definition ttest_sort_values_p_bonf :: "ttest_df \<Rightarrow> ttest_df" where
  "ttest_sort_values_p_bonf tt =
     (let idx = argsort (tt_p_bonf tt) in
      \<lparr> tt_metabolite = take_rows idx (tt_metabolite tt),
        tt_T = take_rows idx (tt_T tt),
        tt_p_val = take_rows idx (tt_p_val tt),
        tt_p_bonf = take_rows idx (tt_p_bonf tt),
        tt_significance = take_rows idx (tt_significance tt),
        tt_attribute = take_rows idx (tt_attribute tt),
        tt_A = take_rows idx (tt_A tt),
        tt_B = take_rows idx (tt_B tt) \<rparr>)"

text \<open>
  \<^verbatim>\<open>pd.concat(ttest)\<close> raises ValueError on an empty list, that is when the feature table
  has no column.
\<close>

definition gen_ttest_data ::
  "pg_ttest \<Rightarrow> session \<Rightarrow> string \<Rightarrow> string list \<Rightarrow> bool \<Rightarrow> error + ttest_df" where
  "gen_ttest_data lib st ttest_attribute target_groups paired =
     (let df = concat_axis1 (data st) (md st) in
      case ttest_loop lib df (map fst (data st)) ttest_attribute target_groups paired of
        Inl e \<Rightarrow> Inl e
      | Inr ttest \<Rightarrow>
          if ttest = [] then Inl ValueError
          else
            (let p_val = map (\<lambda>(m, t, p). p) ttest;
                 p_bonf = multicomp_bonf p_val;
                 n = length ttest
             in case py_index target_groups 0 of
                  Inl e \<Rightarrow> Inl e
                | Inr g0 \<Rightarrow>
                    (case py_index target_groups 1 of
                       Inl e \<Rightarrow> Inl e
                     | Inr g1 \<Rightarrow>
                         Inr (ttest_sort_values_p_bonf
                           \<lparr> tt_metabolite = map (\<lambda>(m, t, p). m) ttest,
                             tt_T = map (\<lambda>(m, t, p). t) ttest,
                             tt_p_val = p_val,
                             tt_p_bonf = p_bonf,
                             tt_significance = map (\<lambda>c. c < 0.05) p_bonf,
                             tt_attribute = replicate n (strip_attribute ttest_attribute),
                             tt_A = replicate n g0,
                             tt_B = replicate n g1 \<rparr>))))"

text \<open>
  The significance bracket of \<^verbatim>\<open>ttest_boxplot\<close> (the figure itself is not modelled).
  \<^verbatim>\<open>df_ttest.loc[metabolite, "p-bonf"]\<close> raises KeyError for a missing label; for a
  label carried by several rows it gives a series, whose truth value in the comparison
  raises ValueError.
\<close>

definition loc_p_bonf :: "ttest_df \<Rightarrow> string \<Rightarrow> error + real" where
  "loc_p_bonf df_ttest metabolite =
     (case filter (\<lambda>r. fst r = metabolite) (zip (tt_metabolite df_ttest) (tt_p_bonf df_ttest)) of
        [] \<Rightarrow> Inl KeyError
      | [r] \<Rightarrow> Inr (snd r)
      | _ \<Rightarrow> Inl ValueError)"

definition symbol_of :: "real \<Rightarrow> string" where
  "symbol_of pvalue =
     (if pvalue \<ge> 0.05 then ''ns''
      else if pvalue \<ge> 0.01 then ''*''
      else if pvalue \<ge> 0.001 then ''**''
      else ''***'')"

definition y_margin_of :: "string \<Rightarrow> real" where
  "y_margin_of symbol = (if symbol = ''ns'' then 0.2 else 0.05)"

definition ttest_boxplot_symbol :: "ttest_df \<Rightarrow> string \<Rightarrow> error + string" where
  "ttest_boxplot_symbol df_ttest metabolite =
     (case loc_p_bonf df_ttest metabolite of
        Inl e \<Rightarrow> Inl e
      | Inr pvalue \<Rightarrow> Inr (symbol_of pvalue))"

section \<open>Memoisation of the statistics functions\<close>

text \<open>
  Modelled from the spec: the memoisation layer (\<^verbatim>\<open>st.cache_data\<close> of the UI framework,
  which is not among the sources). A result is stored under the explicit parameters of
  the call and returned without recomputation when the same parameters come again. The
  body is the decorated function, run in the session state of the moment of the call.
\<close>

definition st_cache_data ::
  "('k \<Rightarrow> error + 'r) \<Rightarrow> ('k \<rightharpoonup> 'r) \<Rightarrow> 'k \<Rightarrow> (error + 'r) \<times> ('k \<rightharpoonup> 'r)" where
  "st_cache_data body cache key =
     (case cache key of
        Some r \<Rightarrow> (Inr r, cache)
      | None \<Rightarrow>
          (case body key of
             Inl e \<Rightarrow> (Inl e, cache)
           | Inr r \<Rightarrow> (Inr r, cache(key \<mapsto> r))))"

text \<open>\<^verbatim>\<open>@st.cache_data def gen_ttest_data(ttest_attribute, target_groups, paired)\<close>\<close>

definition cached_gen_ttest_data ::
  "pg_ttest \<Rightarrow> session \<Rightarrow> (string \<times> string list \<times> bool \<rightharpoonup> ttest_df)
     \<Rightarrow> string \<times> string list \<times> bool
     \<Rightarrow> (error + ttest_df) \<times> (string \<times> string list \<times> bool \<rightharpoonup> ttest_df)" where
  "cached_gen_ttest_data lib st cache key =
     st_cache_data (\<lambda>(ttest_attribute, target_groups, paired).
        gen_ttest_data lib st ttest_attribute target_groups paired) cache key"

section \<open>Data preparation (\<^verbatim>\<open>pages/1_Data_Preparation.py\<close>)\<close>

text \<open>
  On this page the feature table \<^verbatim>\<open>ft\<close> has one column per sample and one row per
  feature; the metadata table \<^verbatim>\<open>md\<close> has one row per sample, labelled by the sample
  identifier, and one cell per attribute column.
\<close>

record metadata =
  md_columns :: "string list"
  md_rows :: "(string \<times> string list) list"

text \<open>\<^verbatim>\<open>md[md[column] == value].index\<close>\<close>

definition md_where :: "metadata \<Rightarrow> string \<Rightarrow> string \<Rightarrow> error + string list" where
  "md_where m column v =
     (if column \<notin> set (md_columns m) then Inl KeyError
      else Inr (map fst
             (filter (\<lambda>r. map_of (zip (md_columns m) (snd r)) column = Some v) (md_rows m))))"

text \<open>\<^verbatim>\<open>md.loc[labels]\<close>: the rows with these labels, KeyError for a missing label.\<close>

definition md_loc :: "metadata \<Rightarrow> string list \<Rightarrow> error + metadata" where
  "md_loc m labels =
     (if \<exists>l \<in> set labels. l \<notin> fst ` set (md_rows m) then Inl KeyError
      else Inr (m\<lparr>md_rows := concat (map (\<lambda>l. filter (\<lambda>r. fst r = l) (md_rows m)) labels)\<rparr>))"

text \<open>
  The selection of the sample columns and, when blank removal is switched on, of the
  blank columns (lines 77 to 103 of the page).
\<close>

definition select_blanks_and_samples ::
  "num_table \<Rightarrow> metadata \<Rightarrow> string \<Rightarrow> string \<Rightarrow> string \<Rightarrow> string
     \<Rightarrow> error + (num_table \<times> num_table)" where
  "select_blanks_and_samples ft m sample_column sample_row blank_column blank_row =
     (case md_where m sample_column sample_row of
        Inl e \<Rightarrow> Inl e
      | Inr sample_index \<Rightarrow>
          (case loc_columns ft sample_index of
             Inl e \<Rightarrow> Inl e
           | Inr samples \<Rightarrow>
               (case md_loc m (filter (\<lambda>index. index \<notin> set (map fst samples))
                                  (map fst (md_rows m))) of
                  Inl e \<Rightarrow> Inl e
                | Inr non_samples_md \<Rightarrow>
                    (case md_where non_samples_md blank_column blank_row of
                       Inl e \<Rightarrow> Inl e
                     | Inr blank_index \<Rightarrow>
                         (case loc_columns ft blank_index of
                            Inl e \<Rightarrow> Inl e
                          | Inr blanks \<Rightarrow> Inr (blanks, samples))))))"

text \<open>
  Modelled from the spec: \<^verbatim>\<open>get_cutoff_LOD\<close> of \<^verbatim>\<open>src/cleanup.py\<close>, which is not among
  the sources. The limit of detection is the minimum nonzero value of the whole table;
  the computation fails with DegenerateInputError on an all-zero or empty table.
\<close>

definition get_cutoff_LOD :: "num_table \<Rightarrow> error + real" where
  "get_cutoff_LOD ft =
     (let nonzero = filter (\<lambda>v. v \<noteq> 0) (concat (map snd ft)) in
      if nonzero = [] then Inl DegenerateInputError else Inr (Min (set nonzero)))"

text \<open>
  Modelled from the spec: \<^verbatim>\<open>impute_missing_values\<close> of \<^verbatim>\<open>src/cleanup.py\<close>, which is not
  among the sources. Every cell equal to zero is replaced by a value drawn uniformly from
  \<open>[0, cutoff_LOD)\<close>; the result is a new table. The random generator is the sequence
  \<open>rng\<close> of its draws from \<open>[0, 1)\<close>; the number of draws made so far is passed along.
\<close>

fun impute_cells :: "(nat \<Rightarrow> real) \<Rightarrow> real \<Rightarrow> nat \<Rightarrow> real list \<Rightarrow> real list \<times> nat" where
  "impute_cells rng cutoff_LOD k [] = ([], k)"
| "impute_cells rng cutoff_LOD k (v # vs) =
     (if v = 0
      then (case impute_cells rng cutoff_LOD (Suc k) vs of
              (vs', k') \<Rightarrow> (rng k * cutoff_LOD # vs', k'))
      else (case impute_cells rng cutoff_LOD k vs of
              (vs', k') \<Rightarrow> (v # vs', k')))"

fun impute_columns :: "(nat \<Rightarrow> real) \<Rightarrow> real \<Rightarrow> nat \<Rightarrow> num_table \<Rightarrow> num_table" where
  "impute_columns rng cutoff_LOD k [] = []"
| "impute_columns rng cutoff_LOD k (c # cs) =
     (case impute_cells rng cutoff_LOD k (snd c) of
        (vs', k') \<Rightarrow> (fst c, vs') # impute_columns rng cutoff_LOD k' cs)"

definition impute_missing_values :: "(nat \<Rightarrow> real) \<Rightarrow> num_table \<Rightarrow> real \<Rightarrow> num_table" where
  "impute_missing_values rng ft cutoff_LOD = impute_columns rng cutoff_LOD 0 ft"

text \<open>\<^verbatim>\<open>(ft == 0).to_numpy().mean() * 100\<close>\<close>

definition missing_percentage :: "num_table \<Rightarrow> real" where
  "missing_percentage ft =
     real (length (filter (\<lambda>v. v = 0) (concat (map snd ft))))
       / real (length (concat (map snd ft))) * 100"

text \<open>
  Lines 125 to 139 of the page: the limit of detection, the metric of missing values
  that is displayed, and the table after the optional imputation.
\<close>

definition imputation_step ::
  "(nat \<Rightarrow> real) \<Rightarrow> num_table \<Rightarrow> bool \<Rightarrow> error + (real \<times> real \<times> num_table)" where
  "imputation_step rng ft imputation =
     (case get_cutoff_LOD ft of
        Inl e \<Rightarrow> Inl e
      | Inr cutoff_LOD \<Rightarrow>
          (let metric = missing_percentage ft;
               ft2 = (if imputation then impute_missing_values rng ft cutoff_LOD else ft)
           in Inr (metric, cutoff_LOD, ft2)))"

section \<open>Example inputs\<close>

text \<open>
  Small sessions and tables, and stand-ins with fixed answers for the functions of the
  statistics library and for the random generator. They instantiate the theorems below
  at concrete inputs. \<open>ex_session\<close> and \<open>ex_session2\<close> have two groups of three samples and
  differ in their second feature; \<open>ex_session3\<close> has three levels of the attribute;
  \<open>ex_session4\<close> has groups of three and four samples. \<open>ex_pg_ttest_strict\<close> is a
  library that refuses paired vectors of different lengths.
\<close>

definition ex_session :: session where
  "ex_session =
     \<lparr> data = [(''f1'', [5, 6, 7, 5, 6, 8]), (''f2'', [1, 2, 3, 7, 8, 9])],
       md = [(''ATTRIBUTE_group'', [''a'', ''a'', ''a'', ''b'', ''b'', ''b''])] \<rparr>"

definition ex_session2 :: session where
  "ex_session2 =
     \<lparr> data = [(''f1'', [5, 6, 7, 5, 6, 8]), (''f3'', [4, 6, 8, 5, 7, 9])],
       md = [(''ATTRIBUTE_group'', [''a'', ''a'', ''a'', ''b'', ''b'', ''b''])] \<rparr>"

definition ex_pg_anova :: pg_anova where
  "ex_pg_anova df dv between = (if dv = ''f1'' then Inr (0.02, 14) else Inr (0.001, 73))"

definition ex_pg_ttest :: pg_ttest where
  "ex_pg_ttest x y paired =
     (if x = [5, 6, 7] then Inr (- 0.4, 0.9)
      else if x = [4, 6, 8] then Inr (- 0.6, 0.6)
      else Inr (- 7.3, 0.025))"

fun level_pairs :: "string list \<Rightarrow> (string \<times> string) list" where
  "level_pairs [] = []"
| "level_pairs (a # as) = map (Pair a) as @ level_pairs as"

definition ex_pg_pairwise_tukey :: pg_pairwise_tukey where
  "ex_pg_pairwise_tukey df dv between =
     (case getitem df between of
        Inr (Strs levels) \<Rightarrow>
          Inr (map (\<lambda>(a, b). \<lparr> lr_diff = - 1, lr_p_tukey = (if dv = ''f1'' then 0.02 else 0.001),
                               lr_A = a, lr_B = b, lr_mean_A = 6, lr_mean_B = 7 \<rparr>)
                 (level_pairs (remdups levels)))
      | _ \<Rightarrow> Inl ''KeyError'')"

definition ex_session3 :: session where
  "ex_session3 =
     \<lparr> data = [(''f1'', [5, 6, 7, 5, 6, 8]), (''f2'', [1, 2, 3, 7, 8, 9])],
       md = [(''ATTRIBUTE_group'', [''a'', ''b'', ''c'', ''a'', ''b'', ''c''])] \<rparr>"

definition ex_session4 :: session where
  "ex_session4 =
     \<lparr> data = [(''f1'', [5, 6, 7, 5, 6, 8, 9])],
       md = [(''ATTRIBUTE_group'', [''a'', ''a'', ''a'', ''b'', ''b'', ''b'', ''b''])] \<rparr>"

definition ex_pg_ttest_strict :: pg_ttest where
  "ex_pg_ttest_strict x y paired =
     (if paired \<and> length x \<noteq> length y then Inl ''ValueError'' else ex_pg_ttest x y paired)"

definition ex_ttest_table :: ttest_df where
  "ex_ttest_table =
     \<lparr> tt_metabolite = [''f4'', ''f3'', ''f2'', ''f1''],
       tt_T = [- 9.1, - 5.2, - 3.3, - 0.4],
       tt_p_val = [0.000025, 0.00125, 0.0075, 0.05],
       tt_p_bonf = [0.0001, 0.005, 0.03, 0.2],
       tt_significance = [True, True, True, False],
       tt_attribute = [''group'', ''group'', ''group'', ''group''],
       tt_A = [''a'', ''a'', ''a'', ''a''],
       tt_B = [''b'', ''b'', ''b'', ''b''] \<rparr>"

definition ex_ft :: num_table where
  "ex_ft = [(''s1'', [10, 0, 7]), (''s2'', [12, 3, 0]), (''b1'', [1, 2, 0]), (''p1'', [5, 5, 5])]"

definition ex_md :: metadata where
  "ex_md =
     \<lparr> md_columns = [''ATTRIBUTE_type''],
       md_rows = [(''s1'', [''sample'']), (''s2'', [''sample'']), (''b1'', [''blank'']),
                  (''p1'', [''pool''])] \<rparr>"

definition ex_rng :: "nat \<Rightarrow> real" where
  "ex_rng k = (if even k then 1 / 2 else 1 / 4)"

section \<open>Sorting and the Bonferroni column\<close>

lemma length_argsort: "length (argsort ks) = length ks"
  by (simp add: argsort_def)

lemma set_argsort: "set (argsort ks) = {0..<length ks}"
proof -
  have "map snd (zip ks [0..<length ks]) = [0..<length ks]"
    by simp
  then have "snd ` set (zip ks [0..<length ks]) = set [0..<length ks]"
    by (metis set_map)
  then show ?thesis
    by (simp add: argsort_def)
qed

lemma length_take_rows: "length (take_rows idx xs) = length idx"
  by (simp add: take_rows_def)

lemma nth_take_rows: "i < length idx \<Longrightarrow> take_rows idx xs ! i = xs ! (idx ! i)"
  by (simp add: take_rows_def)

lemma take_rows_map:
  "\<forall>i \<in> set idx. i < length xs \<Longrightarrow> take_rows idx (map f xs) = map f (take_rows idx xs)"
  by (simp add: take_rows_def)

lemma sorted_take_rows_argsort: "sorted (take_rows (argsort ks) ks)"
proof -
  let ?zs = "sort_key fst (zip ks [0..<length ks])"
  have "\<forall>z \<in> set ?zs. ks ! snd z = fst z"
    by (auto simp: set_zip)
  then have "map (\<lambda>i. ks ! i) (map snd ?zs) = map fst ?zs"
    by simp
  then show ?thesis
    by (simp add: take_rows_def argsort_def del: map_map)
qed

lemma take_rows_argsort_bonf:
  "take_rows (argsort ks) (multicomp_bonf ps) =
     map (\<lambda>p. min 1 (p * real (length ps))) (take_rows (argsort ks) ps)" if "length ks = length ps"
  unfolding multicomp_bonf_def using that
  by (intro take_rows_map) (simp add: set_argsort)

lemma gen_anova_data_names:
  "gen_anova_data lib df cols g = Inr recs \<Longrightarrow> map fst recs = cols"
  by (induction cols arbitrary: recs) (auto split: sum.splits prod.splits)

lemma anova_fresh:
  "add_bonferroni_to_anova (anova_fromiter recs) =
     (let ps = map (\<lambda>(m, p, f). p) recs; idx = argsort ps in
      \<lparr> an_metabolite = take_rows idx (map (\<lambda>(m, p, f). U100 m) recs),
        an_p = take_rows idx ps,
        an_F = take_rows idx (map (\<lambda>(m, p, f). f) recs),
        an_p_bonferroni = Some (take_rows idx (multicomp_bonf ps)),
        an_significant = Some (take_rows idx (map (\<lambda>c. c < 0.05) (multicomp_bonf ps))) \<rparr>)"
  by (simp add: add_bonferroni_to_anova_def anova_fromiter_def anova_sort_values_p_def Let_def)

lemma anova_bonf:
  assumes "anova lib st df attribute = Inr a"
  shows "an_p_bonferroni a = Some (map (\<lambda>p. min 1 (p * real (length (an_p a)))) (an_p a))"
    and "an_significant a = Some (map (\<lambda>c. c < 0.05) (the (an_p_bonferroni a)))"
    and "length (an_p a) = length df"
    and "sorted (an_p a)"
proof -
  from assms obtain recs where
    g: "gen_anova_data lib (concat_axis1 df (md st)) (map fst df) attribute = Inr recs"
    and a: "a = add_bonferroni_to_anova (anova_fromiter recs)"
    by (auto simp: anova_def split: sum.splits)
  let ?ps = "map (\<lambda>(m, p, f). p) recs"
  have n: "length (take_rows (argsort ?ps) ?ps) = length ?ps"
    by (simp add: length_take_rows length_argsort)
  show 1: "an_p_bonferroni a = Some (map (\<lambda>p. min 1 (p * real (length (an_p a)))) (an_p a))"
    using n by (simp add: a anova_fresh Let_def take_rows_argsort_bonf)
  have le: "\<forall>i \<in> set (argsort ?ps). i < length (multicomp_bonf ?ps)"
    by (simp add: set_argsort multicomp_bonf_def)
  show "an_significant a = Some (map (\<lambda>c. c < 0.05) (the (an_p_bonferroni a)))"
    using take_rows_map [OF le] by (simp add: a anova_fresh Let_def)
  from gen_anova_data_names [OF g] have "length recs = length df"
    by (metis length_map)
  then show "length (an_p a) = length df"
    by (simp add: a anova_fresh Let_def length_take_rows length_argsort)
  show "sorted (an_p a)"
    by (simp add: a anova_fresh Let_def sorted_take_rows_argsort)
qed

lemma tukey_fresh:
  "add_bonferroni_to_tukeys (tukey_fromiter recs) =
     Inr (let ps = map tr_p recs; idx = argsort ps in
      \<lparr> tk_stats_metabolite = take_rows idx (map (\<lambda>r. U100 (tr_metabolite r)) recs),
        tk_diff = take_rows idx (map tr_diff recs),
        tk_stats_p = take_rows idx ps,
        tk_stats_p_bonferroni = Some (take_rows idx (multicomp_bonf ps)),
        tk_stats_significant = Some (take_rows idx (map (\<lambda>c. c < 0.05) (multicomp_bonf ps))),
        tk_attribute = take_rows idx (map (\<lambda>r. U100 (tr_attribute r)) recs),
        tk_A = take_rows idx (map (\<lambda>r. U100 (tr_A r)) recs),
        tk_B = take_rows idx (map (\<lambda>r. U100 (tr_B r)) recs),
        tk_mean_A = take_rows idx (map tr_mean_A recs),
        tk_mean_B = take_rows idx (map tr_mean_B recs) \<rparr>)"
  by (simp add: add_bonferroni_to_tukeys_def tukey_fromiter_def tukey_sort_values_stats_p_def
      Let_def)

lemma tukeyE:
  assumes "tukey lib st df attribute elements = Inr t"
  obtains sig cols levels recs where
    "an_significant df = Some sig"
    "loc_columns (data st) (select sig (an_metabolite df)) = Inr cols"
    "getitem (concat_axis1 cols (filter (\<lambda>c. fst c = attribute) (md st))) attribute = Inr levels"
    "gen_pairwise_tukey lib
       (frame_select (isin levels elements)
          (concat_axis1 cols (filter (\<lambda>c. fst c = attribute) (md st))))
       (select sig (an_metabolite df)) attribute = Inr recs"
    "add_bonferroni_to_tukeys (tukey_fromiter recs) = Inr t"
  using assms unfolding tukey_def Let_def
  by (auto split: option.splits sum.splits list.splits)

lemma gen_pairwise_tukey_length:
  "gen_pairwise_tukey lib df ms attribute = Inr recs \<Longrightarrow> length recs = length ms"
  by (induction ms arbitrary: recs) (auto split: sum.splits list.splits)

lemma tukey_bonf:
  assumes "tukey lib st df attribute elements = Inr t"
  shows "tk_stats_p_bonferroni t =
           Some (map (\<lambda>p. min 1 (p * real (length (tk_stats_p t)))) (tk_stats_p t))"
    and "tk_stats_significant t = Some (map (\<lambda>c. c < 0.05) (the (tk_stats_p_bonferroni t)))"
    and "length (tk_stats_p t) = length (select (the (an_significant df)) (an_metabolite df))"
    and "sorted (tk_stats_p t)"
proof -
  from assms obtain sig cols levels recs where
    sig: "an_significant df = Some sig"
    and g: "gen_pairwise_tukey lib
       (frame_select (isin levels elements)
          (concat_axis1 cols (filter (\<lambda>c. fst c = attribute) (md st))))
       (select sig (an_metabolite df)) attribute = Inr recs"
    and t: "add_bonferroni_to_tukeys (tukey_fromiter recs) = Inr t"
    by (rule tukeyE)
  let ?ps = "map tr_p recs"
  have n: "length (take_rows (argsort ?ps) ?ps) = length ?ps"
    by (simp add: length_take_rows length_argsort)
  from t have t': "t = (let ps = map tr_p recs; idx = argsort ps in
      \<lparr> tk_stats_metabolite = take_rows idx (map (\<lambda>r. U100 (tr_metabolite r)) recs),
        tk_diff = take_rows idx (map tr_diff recs),
        tk_stats_p = take_rows idx ps,
        tk_stats_p_bonferroni = Some (take_rows idx (multicomp_bonf ps)),
        tk_stats_significant = Some (take_rows idx (map (\<lambda>c. c < 0.05) (multicomp_bonf ps))),
        tk_attribute = take_rows idx (map (\<lambda>r. U100 (tr_attribute r)) recs),
        tk_A = take_rows idx (map (\<lambda>r. U100 (tr_A r)) recs),
        tk_B = take_rows idx (map (\<lambda>r. U100 (tr_B r)) recs),
        tk_mean_A = take_rows idx (map tr_mean_A recs),
        tk_mean_B = take_rows idx (map tr_mean_B recs) \<rparr>)"
    by (simp only: tukey_fresh sum.inject)
  show "tk_stats_p_bonferroni t =
           Some (map (\<lambda>p. min 1 (p * real (length (tk_stats_p t)))) (tk_stats_p t))"
    using n by (simp add: t' Let_def take_rows_argsort_bonf)
  have le: "\<forall>i \<in> set (argsort ?ps). i < length (multicomp_bonf ?ps)"
    by (simp add: set_argsort multicomp_bonf_def)
  show "tk_stats_significant t = Some (map (\<lambda>c. c < 0.05) (the (tk_stats_p_bonferroni t)))"
    using take_rows_map [OF le] by (simp add: t' Let_def)
  show "length (tk_stats_p t) = length (select (the (an_significant df)) (an_metabolite df))"
    using gen_pairwise_tukey_length [OF g]
    by (simp add: t' sig Let_def length_take_rows length_argsort)
  show "sorted (tk_stats_p t)"
    by (simp add: t' Let_def sorted_take_rows_argsort)
qed

lemma ttestE:
  assumes "gen_ttest_data lib st ttest_attribute target_groups paired = Inr tt"
  obtains ttest g0 g1 where
    "ttest_loop lib (concat_axis1 (data st) (md st)) (map fst (data st))
       ttest_attribute target_groups paired = Inr ttest"
    "ttest \<noteq> []"
    "py_index target_groups 0 = Inr g0"
    "py_index target_groups 1 = Inr g1"
    "tt = ttest_sort_values_p_bonf
           \<lparr> tt_metabolite = map (\<lambda>(m, t, p). m) ttest,
             tt_T = map (\<lambda>(m, t, p). t) ttest,
             tt_p_val = map (\<lambda>(m, t, p). p) ttest,
             tt_p_bonf = multicomp_bonf (map (\<lambda>(m, t, p). p) ttest),
             tt_significance = map (\<lambda>c. c < 0.05) (multicomp_bonf (map (\<lambda>(m, t, p). p) ttest)),
             tt_attribute = replicate (length ttest) (strip_attribute ttest_attribute),
             tt_A = replicate (length ttest) g0,
             tt_B = replicate (length ttest) g1 \<rparr>"
  using assms unfolding gen_ttest_data_def Let_def
  by (auto split: sum.splits if_splits)

lemma ttest_loop_names:
  "ttest_loop lib df cols a gs paired = Inr res \<Longrightarrow> map fst res = cols"
  by (induction cols arbitrary: res) (auto split: sum.splits prod.splits)

lemma ttest_bonf:
  assumes "gen_ttest_data lib st ttest_attribute target_groups paired = Inr tt"
  shows "tt_p_bonf tt = map (\<lambda>p. min 1 (p * real (length (tt_p_val tt)))) (tt_p_val tt)"
    and "tt_significance tt = map (\<lambda>c. c < 0.05) (tt_p_bonf tt)"
    and "length (tt_p_val tt) = length (data st)"
    and "sorted (tt_p_bonf tt)"
proof -
  from assms obtain ttest g0 g1 where
    l: "ttest_loop lib (concat_axis1 (data st) (md st)) (map fst (data st))
       ttest_attribute target_groups paired = Inr ttest"
    and tt: "tt = ttest_sort_values_p_bonf
           \<lparr> tt_metabolite = map (\<lambda>(m, t, p). m) ttest,
             tt_T = map (\<lambda>(m, t, p). t) ttest,
             tt_p_val = map (\<lambda>(m, t, p). p) ttest,
             tt_p_bonf = multicomp_bonf (map (\<lambda>(m, t, p). p) ttest),
             tt_significance = map (\<lambda>c. c < 0.05) (multicomp_bonf (map (\<lambda>(m, t, p). p) ttest)),
             tt_attribute = replicate (length ttest) (strip_attribute ttest_attribute),
             tt_A = replicate (length ttest) g0,
             tt_B = replicate (length ttest) g1 \<rparr>"
    by (rule ttestE)
  let ?ps = "map (\<lambda>(m, t, p). p) ttest"
  let ?idx = "argsort (multicomp_bonf ?ps)"
  have len: "length (multicomp_bonf ?ps) = length ?ps"
    by (simp add: multicomp_bonf_def)
  have n: "length (take_rows ?idx ?ps) = length ?ps"
    by (simp add: length_take_rows length_argsort len)
  show "tt_p_bonf tt = map (\<lambda>p. min 1 (p * real (length (tt_p_val tt)))) (tt_p_val tt)"
    using n by (simp add: tt ttest_sort_values_p_bonf_def Let_def take_rows_argsort_bonf len)
  have le: "\<forall>i \<in> set ?idx. i < length (multicomp_bonf ?ps)"
    by (simp add: set_argsort)
  show "tt_significance tt = map (\<lambda>c. c < 0.05) (tt_p_bonf tt)"
    using take_rows_map [OF le] by (simp add: tt ttest_sort_values_p_bonf_def Let_def)
  from ttest_loop_names [OF l] have "length ttest = length (data st)"
    by (metis length_map)
  then show "length (tt_p_val tt) = length (data st)"
    by (simp add: tt ttest_sort_values_p_bonf_def Let_def length_take_rows length_argsort len)
  show "sorted (tt_p_bonf tt)"
    by (simp add: tt ttest_sort_values_p_bonf_def Let_def sorted_take_rows_argsort)
qed

section \<open>The pipelines on the example inputs\<close>

lemma ex_anova_eval:
  "anova ex_pg_anova ex_session (data ex_session) ''ATTRIBUTE_group'' =
     Inr \<lparr> an_metabolite = [''f2'', ''f1''], an_p = [0.001, 0.02], an_F = [73, 14],
           an_p_bonferroni = Some [0.002, 0.04], an_significant = Some [True, True] \<rparr>"
  by code_simp

lemma ex_tukey_eval:
  "tukey ex_pg_pairwise_tukey ex_session
     \<lparr> an_metabolite = [''f2'', ''f1''], an_p = [0.001, 0.02], an_F = [73, 14],
       an_p_bonferroni = Some [0.002, 0.04], an_significant = Some [True, True] \<rparr>
     ''ATTRIBUTE_group'' [''a'', ''b''] =
     Inr \<lparr> tk_stats_metabolite = [''f2'', ''f1''], tk_diff = [- 1, - 1],
           tk_stats_p = [0.001, 0.02],
           tk_stats_p_bonferroni = Some [0.002, 0.04],
           tk_stats_significant = Some [True, True],
           tk_attribute = [''group'', ''group''], tk_A = [''a'', ''a''],
           tk_B = [''b'', ''b''], tk_mean_A = [6, 6], tk_mean_B = [7, 7] \<rparr>"
  by code_simp

lemma ex_ttest_eval:
  "gen_ttest_data ex_pg_ttest ex_session ''ATTRIBUTE_group'' [''a'', ''b''] False =
     Inr \<lparr> tt_metabolite = [''f2'', ''f1''], tt_T = [- 7.3, - 0.4],
           tt_p_val = [0.025, 0.9], tt_p_bonf = [0.05, 1],
           tt_significance = [False, False],
           tt_attribute = [''group'', ''group''], tt_A = [''a'', ''a''],
           tt_B = [''b'', ''b''] \<rparr>"
  by code_simp

lemma ex_ttest2_eval:
  "gen_ttest_data ex_pg_ttest ex_session2 ''ATTRIBUTE_group'' [''a'', ''b''] False =
     Inr \<lparr> tt_metabolite = [''f1'', ''f3''], tt_T = [- 0.4, - 0.6],
           tt_p_val = [0.9, 0.6], tt_p_bonf = [1, 1],
           tt_significance = [False, False],
           tt_attribute = [''group'', ''group''], tt_A = [''a'', ''a''],
           tt_B = [''b'', ''b''] \<rparr>"
  by code_simp

section \<open>Bonferroni correction, significance and order of the result tables\<close>

text \<open>
  Claim C1. In the result table of each pipeline (ANOVA, Tukey, t-test) the corrected
  p-value of every row is \<open>min(1, p * n)\<close>, where \<open>p\<close> is the raw p-value of the same row
  and \<open>n\<close> is the number of rows of the table, that is the number of tests of the batch:
  the feature columns for ANOVA and t-test, the significant metabolites for Tukey.
\<close>

theorem bonferroni_over_exact_batch:
  "(anova lib_a st df attribute = Inr a \<longrightarrow>
      an_p_bonferroni a = Some (map (\<lambda>p. min 1 (p * real (length (an_p a)))) (an_p a)) \<and>
      length (an_p a) = length df) \<and>
   (tukey lib_t st adf attribute elements = Inr t \<longrightarrow>
      tk_stats_p_bonferroni t =
        Some (map (\<lambda>p. min 1 (p * real (length (tk_stats_p t)))) (tk_stats_p t)) \<and>
      length (tk_stats_p t) = length (select (the (an_significant adf)) (an_metabolite adf))) \<and>
   (gen_ttest_data lib_tt st ttest_attribute target_groups paired = Inr tt \<longrightarrow>
      tt_p_bonf tt = map (\<lambda>p. min 1 (p * real (length (tt_p_val tt)))) (tt_p_val tt) \<and>
      length (tt_p_val tt) = length (data st))"
  by (intro conjI impI; erule anova_bonf tukey_bonf ttest_bonf)

theorem bonferroni_over_exact_batch_witness:
  "(\<exists>a. anova ex_pg_anova ex_session (data ex_session) ''ATTRIBUTE_group'' = Inr a \<and>
        an_p a = [0.001, 0.02] \<and>
        an_p_bonferroni a = Some (map (\<lambda>p. min 1 (p * 2)) [0.001, 0.02])) \<and>
   (\<exists>t. tukey ex_pg_pairwise_tukey ex_session
          \<lparr> an_metabolite = [''f2'', ''f1''], an_p = [0.001, 0.02], an_F = [73, 14],
            an_p_bonferroni = Some [0.002, 0.04], an_significant = Some [True, True] \<rparr>
          ''ATTRIBUTE_group'' [''a'', ''b''] = Inr t \<and>
        tk_stats_p t = [0.001, 0.02] \<and>
        tk_stats_p_bonferroni t = Some (map (\<lambda>p. min 1 (p * 2)) [0.001, 0.02])) \<and>
   (\<exists>tt. gen_ttest_data ex_pg_ttest ex_session ''ATTRIBUTE_group'' [''a'', ''b''] False = Inr tt \<and>
        tt_p_val tt = [0.025, 0.9] \<and>
        tt_p_bonf tt = map (\<lambda>p. min 1 (p * 2)) [0.025, 0.9])"
  using
    bonferroni_over_exact_batch [of ex_pg_anova ex_session "data ex_session" "''ATTRIBUTE_group''"
      "\<lparr> an_metabolite = [''f2'', ''f1''], an_p = [0.001, 0.02], an_F = [73, 14],
         an_p_bonferroni = Some [0.002, 0.04], an_significant = Some [True, True] \<rparr>"
      ex_pg_pairwise_tukey
      "\<lparr> an_metabolite = [''f2'', ''f1''], an_p = [0.001, 0.02], an_F = [73, 14],
         an_p_bonferroni = Some [0.002, 0.04], an_significant = Some [True, True] \<rparr>"
      "[''a'', ''b'']"
      "\<lparr> tk_stats_metabolite = [''f2'', ''f1''], tk_diff = [- 1, - 1],
           tk_stats_p = [0.001, 0.02],
           tk_stats_p_bonferroni = Some [0.002, 0.04],
           tk_stats_significant = Some [True, True],
           tk_attribute = [''group'', ''group''], tk_A = [''a'', ''a''],
           tk_B = [''b'', ''b''], tk_mean_A = [6, 6], tk_mean_B = [7, 7] \<rparr>"
      ex_pg_ttest "''ATTRIBUTE_group''" "[''a'', ''b'']" False
      "\<lparr> tt_metabolite = [''f2'', ''f1''], tt_T = [- 7.3, - 0.4],
           tt_p_val = [0.025, 0.9], tt_p_bonf = [0.05, 1],
           tt_significance = [False, False],
           tt_attribute = [''group'', ''group''], tt_A = [''a'', ''a''],
           tt_B = [''b'', ''b''] \<rparr>"]
  unfolding ex_anova_eval ex_tukey_eval ex_ttest_eval
  by simp

text \<open>
  Claim C2. In the result table of each pipeline the significance flag of a row is true
  if and only if the corrected p-value of that row is strictly below 0.05. A corrected
  p-value of exactly 0.05 gives the flag false: the t-test example has such a row.
\<close>

theorem significant_iff_corrected_below_threshold:
  "(anova lib_a st df attribute = Inr a \<longrightarrow>
      (\<exists>pb. an_p_bonferroni a = Some pb \<and> an_significant a = Some (map (\<lambda>c. c < 0.05) pb))) \<and>
   (tukey lib_t st adf attribute elements = Inr t \<longrightarrow>
      (\<exists>pb. tk_stats_p_bonferroni t = Some pb \<and>
            tk_stats_significant t = Some (map (\<lambda>c. c < 0.05) pb))) \<and>
   (gen_ttest_data lib_tt st ttest_attribute target_groups paired = Inr tt \<longrightarrow>
      tt_significance tt = map (\<lambda>c. c < 0.05) (tt_p_bonf tt))"
proof (intro conjI impI)
  assume h: "anova lib_a st df attribute = Inr a"
  from anova_bonf(1,2) [OF h]
  show "\<exists>pb. an_p_bonferroni a = Some pb \<and> an_significant a = Some (map (\<lambda>c. c < 0.05) pb)"
    by simp
next
  assume h: "tukey lib_t st adf attribute elements = Inr t"
  from tukey_bonf(1,2) [OF h]
  show "\<exists>pb. tk_stats_p_bonferroni t = Some pb \<and>
            tk_stats_significant t = Some (map (\<lambda>c. c < 0.05) pb)"
    by simp
next
  assume h: "gen_ttest_data lib_tt st ttest_attribute target_groups paired = Inr tt"
  then show "tt_significance tt = map (\<lambda>c. c < 0.05) (tt_p_bonf tt)"
    by (rule ttest_bonf(2))
qed

theorem significant_iff_corrected_below_threshold_witness:
  "(\<exists>a. anova ex_pg_anova ex_session (data ex_session) ''ATTRIBUTE_group'' = Inr a \<and>
        an_p_bonferroni a = Some [0.002, 0.04] \<and> an_significant a = Some [True, True]) \<and>
   (\<exists>t. tukey ex_pg_pairwise_tukey ex_session
          \<lparr> an_metabolite = [''f2'', ''f1''], an_p = [0.001, 0.02], an_F = [73, 14],
            an_p_bonferroni = Some [0.002, 0.04], an_significant = Some [True, True] \<rparr>
          ''ATTRIBUTE_group'' [''a'', ''b''] = Inr t \<and>
        tk_stats_p_bonferroni t = Some [0.002, 0.04] \<and>
        tk_stats_significant t = Some [True, True]) \<and>
   (\<exists>tt. gen_ttest_data ex_pg_ttest ex_session ''ATTRIBUTE_group'' [''a'', ''b''] False = Inr tt \<and>
        tt_p_bonf tt = [0.05, 1] \<and> tt_significance tt = [False, False])"
  using
    significant_iff_corrected_below_threshold
      [of ex_pg_anova ex_session "data ex_session" "''ATTRIBUTE_group''"
      "\<lparr> an_metabolite = [''f2'', ''f1''], an_p = [0.001, 0.02], an_F = [73, 14],
         an_p_bonferroni = Some [0.002, 0.04], an_significant = Some [True, True] \<rparr>"
      ex_pg_pairwise_tukey
      "\<lparr> an_metabolite = [''f2'', ''f1''], an_p = [0.001, 0.02], an_F = [73, 14],
         an_p_bonferroni = Some [0.002, 0.04], an_significant = Some [True, True] \<rparr>"
      "[''a'', ''b'']"
      "\<lparr> tk_stats_metabolite = [''f2'', ''f1''], tk_diff = [- 1, - 1],
           tk_stats_p = [0.001, 0.02],
           tk_stats_p_bonferroni = Some [0.002, 0.04],
           tk_stats_significant = Some [True, True],
           tk_attribute = [''group'', ''group''], tk_A = [''a'', ''a''],
           tk_B = [''b'', ''b''], tk_mean_A = [6, 6], tk_mean_B = [7, 7] \<rparr>"
      ex_pg_ttest "''ATTRIBUTE_group''" "[''a'', ''b'']" False
      "\<lparr> tt_metabolite = [''f2'', ''f1''], tt_T = [- 7.3, - 0.4],
           tt_p_val = [0.025, 0.9], tt_p_bonf = [0.05, 1],
           tt_significance = [False, False],
           tt_attribute = [''group'', ''group''], tt_A = [''a'', ''a''],
           tt_B = [''b'', ''b''] \<rparr>"]
  unfolding ex_anova_eval ex_tukey_eval ex_ttest_eval
  by simp

text \<open>
  Claim C3 says that every result table is sorted ascending by the raw p-value. The
  t-test table is sorted by the column \<^verbatim>\<open>p-bonf\<close>, so two raw p-values that the
  correction clips to 1 keep the order of the feature columns: here 0.9 comes before
  0.6.
\<close>

theorem ttest_table_not_sorted_by_raw_p:
  "gen_ttest_data ex_pg_ttest ex_session2 ''ATTRIBUTE_group'' [''a'', ''b''] False =
     Inr \<lparr> tt_metabolite = [''f1'', ''f3''], tt_T = [- 0.4, - 0.6],
           tt_p_val = [0.9, 0.6], tt_p_bonf = [1, 1],
           tt_significance = [False, False],
           tt_attribute = [''group'', ''group''], tt_A = [''a'', ''a''],
           tt_B = [''b'', ''b''] \<rparr> \<and>
   \<not> sorted (tt_p_val
     \<lparr> tt_metabolite = [''f1'', ''f3''], tt_T = [- 0.4, - 0.6],
       tt_p_val = [0.9, 0.6], tt_p_bonf = [1, 1],
       tt_significance = [False, False],
       tt_attribute = [''group'', ''group''], tt_A = [''a'', ''a''],
       tt_B = [''b'', ''b''] \<rparr>)"
  by code_simp

text \<open>
  Claim C3, amended. The ANOVA table and the Tukey table are sorted ascending by the raw
  p-value; the t-test table is sorted ascending by the corrected p-value. Nothing is
  stated about the order of rows with equal keys: the source asks pandas for its default
  sort.
\<close>

theorem result_tables_sorted_by_sort_key:
  "(anova lib_a st df attribute = Inr a \<longrightarrow> sorted (an_p a)) \<and>
   (tukey lib_t st adf attribute elements = Inr t \<longrightarrow> sorted (tk_stats_p t)) \<and>
   (gen_ttest_data lib_tt st ttest_attribute target_groups paired = Inr tt \<longrightarrow>
      sorted (tt_p_bonf tt))"
  by (intro conjI impI; erule anova_bonf(4) tukey_bonf(4) ttest_bonf(4))

theorem result_tables_sorted_by_sort_key_witness:
  "(\<exists>a. anova ex_pg_anova ex_session (data ex_session) ''ATTRIBUTE_group'' = Inr a \<and>
        an_p a = [0.001, 0.02] \<and> sorted (an_p a)) \<and>
   (\<exists>t. tukey ex_pg_pairwise_tukey ex_session
          \<lparr> an_metabolite = [''f2'', ''f1''], an_p = [0.001, 0.02], an_F = [73, 14],
            an_p_bonferroni = Some [0.002, 0.04], an_significant = Some [True, True] \<rparr>
          ''ATTRIBUTE_group'' [''a'', ''b''] = Inr t \<and>
        tk_stats_p t = [0.001, 0.02] \<and> sorted (tk_stats_p t)) \<and>
   (\<exists>tt. gen_ttest_data ex_pg_ttest ex_session ''ATTRIBUTE_group'' [''a'', ''b''] False = Inr tt \<and>
        tt_p_bonf tt = [0.05, 1] \<and> sorted (tt_p_bonf tt))"
  using
    result_tables_sorted_by_sort_key
      [of ex_pg_anova ex_session "data ex_session" "''ATTRIBUTE_group''"
      "\<lparr> an_metabolite = [''f2'', ''f1''], an_p = [0.001, 0.02], an_F = [73, 14],
         an_p_bonferroni = Some [0.002, 0.04], an_significant = Some [True, True] \<rparr>"
      ex_pg_pairwise_tukey
      "\<lparr> an_metabolite = [''f2'', ''f1''], an_p = [0.001, 0.02], an_F = [73, 14],
         an_p_bonferroni = Some [0.002, 0.04], an_significant = Some [True, True] \<rparr>"
      "[''a'', ''b'']"
      "\<lparr> tk_stats_metabolite = [''f2'', ''f1''], tk_diff = [- 1, - 1],
           tk_stats_p = [0.001, 0.02],
           tk_stats_p_bonferroni = Some [0.002, 0.04],
           tk_stats_significant = Some [True, True],
           tk_attribute = [''group'', ''group''], tk_A = [''a'', ''a''],
           tk_B = [''b'', ''b''], tk_mean_A = [6, 6], tk_mean_B = [7, 7] \<rparr>"
      ex_pg_ttest "''ATTRIBUTE_group''" "[''a'', ''b'']" False
      "\<lparr> tt_metabolite = [''f2'', ''f1''], tt_T = [- 7.3, - 0.4],
           tt_p_val = [0.025, 0.9], tt_p_bonf = [0.05, 1],
           tt_significance = [False, False],
           tt_attribute = [''group'', ''group''], tt_A = [''a'', ''a''],
           tt_B = [''b'', ''b''] \<rparr>"]
  unfolding ex_anova_eval ex_tukey_eval ex_ttest_eval
  by simp

section \<open>Tukey compares the two requested levels\<close>

lemma select_map: "select (map P xs) xs = filter P xs"
  by (induction xs) (simp_all add: select_def)

lemma filter_frame_select:
  "filter (\<lambda>c. fst c = name) (frame_select keep df) =
     frame_select keep (filter (\<lambda>c. fst c = name) df)"
  by (induction df) (auto simp: frame_select_def)

lemma getitem_frame_select:
  "getitem df name = Inr s \<Longrightarrow> getitem (frame_select keep df) name = Inr (series_select keep s)"
  unfolding getitem_def filter_frame_select
  by (auto simp: frame_select_def split: list.splits)

lemma isin_levels:
  assumes "series_select (isin levels elements) levels = Strs lv"
  shows "set lv \<subseteq> set elements"
proof (cases levels)
  case (Nums xs)
  with assms show ?thesis by simp
next
  case (Strs vs)
  with assms have "lv = filter (\<lambda>v. v \<in> set elements) vs"
    by (simp add: select_map)
  then show ?thesis by auto
qed

lemma gen_pairwise_tukey_levels:
  assumes lib: "\<And>dv rows r. lib df dv attribute = Inr rows \<Longrightarrow> r \<in> set rows \<Longrightarrow>
            lr_A r \<in> L \<and> lr_B r \<in> L \<and> lr_A r \<noteq> lr_B r"
    and "gen_pairwise_tukey lib df ms attribute = Inr recs"
  shows "\<forall>r \<in> set recs. tr_A r \<in> L \<and> tr_B r \<in> L \<and> tr_A r \<noteq> tr_B r"
  using assms(2)
proof (induction ms arbitrary: recs)
  case Nil
  then show ?case by simp
next
  case (Cons m ms)
  from Cons.prems obtain row rows rest where
    r: "lib df m attribute = Inr (row # rows)"
    and g: "gen_pairwise_tukey lib df ms attribute = Inr rest"
    and recs: "recs = \<lparr> tr_metabolite = m, tr_diff = lr_diff row, tr_p = lr_p_tukey row,
                        tr_attribute = strip_attribute attribute,
                        tr_A = lr_A row, tr_B = lr_B row,
                        tr_mean_A = lr_mean_A row, tr_mean_B = lr_mean_B row \<rparr> # rest"
    by (auto split: sum.splits list.splits)
  from lib [OF r] have "lr_A row \<in> L \<and> lr_B row \<in> L \<and> lr_A row \<noteq> lr_B row"
    by simp
  with Cons.IH [OF g] show ?case
    by (simp add: recs)
qed

lemma tukey_labels:
  assumes lib: "\<And>df dv between rows r. lib df dv between = Inr rows \<Longrightarrow> r \<in> set rows \<Longrightarrow>
            \<exists>lv. getitem df between = Inr (Strs lv) \<and>
                 lr_A r \<in> set lv \<and> lr_B r \<in> set lv \<and> lr_A r \<noteq> lr_B r"
    and t: "tukey lib st df attribute elements = Inr t"
  shows "\<exists>(recs :: tukey_record list) idx. (\<forall>r \<in> set recs. tr_A r \<in> set elements \<and> tr_B r \<in> set elements \<and>
                          tr_A r \<noteq> tr_B r) \<and>
           (\<forall>i \<in> set idx. i < length recs) \<and>
           tk_stats_metabolite t = take_rows idx (map (\<lambda>r. U100 (tr_metabolite r)) recs) \<and>
           tk_A t = take_rows idx (map (\<lambda>r. U100 (tr_A r)) recs) \<and>
           tk_B t = take_rows idx (map (\<lambda>r. U100 (tr_B r)) recs)"
proof -
  from t obtain sig cols levels recs where
    lv: "getitem (concat_axis1 cols (filter (\<lambda>c. fst c = attribute) (md st))) attribute
           = Inr levels"
    and g: "gen_pairwise_tukey lib
       (frame_select (isin levels elements)
          (concat_axis1 cols (filter (\<lambda>c. fst c = attribute) (md st))))
       (select sig (an_metabolite df)) attribute = Inr recs"
    and a: "add_bonferroni_to_tukeys (tukey_fromiter recs) = Inr t"
    by (rule tukeyE)
  let ?dat2 = "frame_select (isin levels elements)
          (concat_axis1 cols (filter (\<lambda>c. fst c = attribute) (md st)))"
  have sel: "getitem ?dat2 attribute = Inr (series_select (isin levels elements) levels)"
    using lv by (rule getitem_frame_select)
  have "\<And>dv rows r. lib ?dat2 dv attribute = Inr rows \<Longrightarrow> r \<in> set rows \<Longrightarrow>
            lr_A r \<in> set elements \<and> lr_B r \<in> set elements \<and> lr_A r \<noteq> lr_B r"
  proof -
    fix dv rows r
    assume "lib ?dat2 dv attribute = Inr rows" "r \<in> set rows"
    from lib [OF this] obtain lv where
      "getitem ?dat2 attribute = Inr (Strs lv)"
      "lr_A r \<in> set lv" "lr_B r \<in> set lv" "lr_A r \<noteq> lr_B r"
      by blast
    moreover from this(1) sel have "set lv \<subseteq> set elements"
      by (intro isin_levels [of levels]) simp
    ultimately show "lr_A r \<in> set elements \<and> lr_B r \<in> set elements \<and> lr_A r \<noteq> lr_B r"
      by blast
  qed
  from gen_pairwise_tukey_levels [of lib ?dat2 attribute "set elements", OF this g]
  have recs: "\<forall>r \<in> set recs. tr_A r \<in> set elements \<and> tr_B r \<in> set elements \<and>
                 tr_A r \<noteq> tr_B r"
    by simp
  let ?idx = "argsort (map tr_p recs)"
  have idx: "\<forall>i \<in> set ?idx. i < length recs"
    by (simp add: set_argsort)
  from a have tm: "tk_stats_metabolite t = take_rows ?idx (map (\<lambda>r. U100 (tr_metabolite r)) recs)"
    and ta: "tk_A t = take_rows ?idx (map (\<lambda>r. U100 (tr_A r)) recs)"
    and tb: "tk_B t = take_rows ?idx (map (\<lambda>r. U100 (tr_B r)) recs)"
    by (auto simp: tukey_fresh Let_def)
  show ?thesis
    by (intro exI conjI) (fact recs idx tm ta tb)+
qed

lemma U100_short: "length s \<le> 100 \<Longrightarrow> U100 s = s"
  by (simp add: U100_def)


lemma level_pairs_mem: "(a, b) \<in> set (level_pairs xs) \<Longrightarrow> a \<in> set xs \<and> b \<in> set xs"
  by (induction xs) auto

lemma level_pairs_distinct: "distinct xs \<Longrightarrow> (a, b) \<in> set (level_pairs xs) \<Longrightarrow> a \<noteq> b"
  by (induction xs) (auto dest: level_pairs_mem)

lemma ex_pg_pairwise_tukey_contract:
  assumes "ex_pg_pairwise_tukey df dv between = Inr rows" and "r \<in> set rows"
  shows "\<exists>lv. getitem df between = Inr (Strs lv) \<and>
              lr_A r \<in> set lv \<and> lr_B r \<in> set lv \<and> lr_A r \<noteq> lr_B r"
proof -
  from assms(1) obtain lv where
    g: "getitem df between = Inr (Strs lv)"
    and rows: "rows = map (\<lambda>(a, b). \<lparr> lr_diff = - 1,
                 lr_p_tukey = (if dv = ''f1'' then 0.02 else 0.001),
                 lr_A = a, lr_B = b, lr_mean_A = 6, lr_mean_B = 7 \<rparr>)
               (level_pairs (remdups lv))"
    by (auto simp: ex_pg_pairwise_tukey_def split: sum.splits series.splits)
  from assms(2) rows obtain a b where
    ab: "(a, b) \<in> set (level_pairs (remdups lv))" and r: "lr_A r = a" "lr_B r = b"
    by auto
  from level_pairs_mem [OF ab] level_pairs_distinct [OF _ ab]
  have "a \<in> set lv" "b \<in> set lv" "a \<noteq> b"
    by simp_all
  with g r show ?thesis
    by simp
qed

lemma ex_tukey3_eval:
  "tukey ex_pg_pairwise_tukey ex_session3
     \<lparr> an_metabolite = [''f2'', ''f1''], an_p = [0.001, 0.02], an_F = [73, 14],
       an_p_bonferroni = Some [0.002, 0.04], an_significant = Some [True, True] \<rparr>
     ''ATTRIBUTE_group'' [''b'', ''c''] =
     Inr \<lparr> tk_stats_metabolite = [''f2'', ''f1''], tk_diff = [- 1, - 1],
           tk_stats_p = [0.001, 0.02],
           tk_stats_p_bonferroni = Some [0.002, 0.04],
           tk_stats_significant = Some [True, True],
           tk_attribute = [''group'', ''group''], tk_A = [''b'', ''b''],
           tk_B = [''c'', ''c''], tk_mean_A = [6, 6], tk_mean_B = [7, 7] \<rparr>"
  by code_simp


lemma tukey_row_labels:
  assumes lib: "\<And>df dv between rows r. lib df dv between = Inr rows \<Longrightarrow> r \<in> set rows \<Longrightarrow>
            \<exists>lv. getitem df between = Inr (Strs lv) \<and>
                 lr_A r \<in> set lv \<and> lr_B r \<in> set lv \<and> lr_A r \<noteq> lr_B r"
    and t: "tukey lib st df attribute [x, y] = Inr t"
  shows "length (tk_A t) = length (tk_stats_metabolite t) \<and>
         length (tk_B t) = length (tk_stats_metabolite t) \<and>
         (\<forall>i < length (tk_stats_metabolite t).
            (tk_A t ! i = U100 x \<and> tk_B t ! i = U100 y) \<or>
            (tk_A t ! i = U100 y \<and> tk_B t ! i = U100 x))"
proof -
  have "\<exists>(recs :: tukey_record list) idx. (\<forall>r \<in> set recs. tr_A r \<in> set [x, y] \<and> tr_B r \<in> set [x, y] \<and>
                          tr_A r \<noteq> tr_B r) \<and>
           (\<forall>i \<in> set idx. i < length recs) \<and>
           tk_stats_metabolite t = take_rows idx (map (\<lambda>r. U100 (tr_metabolite r)) recs) \<and>
           tk_A t = take_rows idx (map (\<lambda>r. U100 (tr_A r)) recs) \<and>
           tk_B t = take_rows idx (map (\<lambda>r. U100 (tr_B r)) recs)"
    by (rule tukey_labels [OF _ t]) (rule lib; assumption)
  then obtain recs :: "tukey_record list" and idx where
    recs: "\<forall>r \<in> set recs. tr_A r \<in> set [x, y] \<and> tr_B r \<in> set [x, y] \<and> tr_A r \<noteq> tr_B r"
    and idx: "\<forall>i \<in> set idx. i < length recs"
    and m: "tk_stats_metabolite t = take_rows idx (map (\<lambda>r. U100 (tr_metabolite r)) recs)"
    and a: "tk_A t = take_rows idx (map (\<lambda>r. U100 (tr_A r)) recs)"
    and b: "tk_B t = take_rows idx (map (\<lambda>r. U100 (tr_B r)) recs)"
    by blast
  have "(tk_A t ! i = U100 x \<and> tk_B t ! i = U100 y) \<or>
        (tk_A t ! i = U100 y \<and> tk_B t ! i = U100 x)"
    if "i < length (tk_stats_metabolite t)" for i
  proof -
    from that have i: "i < length idx"
      by (simp add: m length_take_rows)
    then have k: "idx ! i < length recs"
      using idx by simp
    then have "recs ! (idx ! i) \<in> set recs"
      by simp
    with recs have "tr_A (recs ! (idx ! i)) \<in> {x, y}" "tr_B (recs ! (idx ! i)) \<in> {x, y}"
      "tr_A (recs ! (idx ! i)) \<noteq> tr_B (recs ! (idx ! i))"
      by auto
    moreover have "tk_A t ! i = U100 (tr_A (recs ! (idx ! i)))"
      "tk_B t ! i = U100 (tr_B (recs ! (idx ! i)))"
      using i k by (simp_all add: a b nth_take_rows)
    ultimately show ?thesis
      by auto
  qed
  then show ?thesis
    by (simp add: m a b length_take_rows)
qed

lemma select_map_zip:
  "select (map P vs) xs = map snd (filter (\<lambda>r. P (fst r)) (zip vs xs))"
  by (simp add: select_def zip_map1 filter_map comp_def case_prod_beta)

lemma getitem_joined_attribute:
  assumes "getitem (concat_axis1 cols (filter (\<lambda>c. fst c = attribute) m)) attribute = Inr s"
    and ne: "filter (\<lambda>c. fst c = attribute) m \<noteq> []"
  shows "\<exists>vs. s = Strs vs"
proof -
  let ?mc = "filter (\<lambda>c. fst c = attribute) m"
  have f: "filter (\<lambda>c. fst c = attribute) (concat_axis1 cols ?mc) =
        filter (\<lambda>c. fst c = attribute) (map (\<lambda>(n, v). (n, Nums v)) cols) @
        map (\<lambda>(n, v). (n, Strs v)) ?mc"
    by (simp add: concat_axis1_def filter_map comp_def case_prod_beta)
  from assms(1) obtain c where
    one: "filter (\<lambda>c. fst c = attribute) (concat_axis1 cols ?mc) = [c]" and s: "s = snd c"
    by (auto simp: getitem_def split: list.splits)
  from ne obtain mc rest where mc: "?mc = mc # rest"
    by (cases ?mc) auto
  let ?nc = "filter (\<lambda>c. fst c = attribute) (map (\<lambda>(n, v). (n, Nums v)) cols)"
  from one f mc have "[c] = ?nc @ (fst mc, Strs (snd mc)) # map (\<lambda>(n, v). (n, Strs v)) rest"
    by (simp add: case_prod_beta)
  then have "c = (fst mc, Strs (snd mc))"
    by (cases ?nc) auto
  with s show ?thesis
    by simp
qed

lemma tukey_frameE:
  assumes "tukey lib st df attribute elements = Inr t"
  obtains sig cols vs recs where
    "an_significant df = Some sig"
    "loc_columns (data st) (select sig (an_metabolite df)) = Inr cols"
    "getitem (concat_axis1 cols (filter (\<lambda>c. fst c = attribute) (md st))) attribute
       = Inr (Strs vs)"
    "gen_pairwise_tukey lib
       (frame_select (isin (Strs vs) elements)
          (concat_axis1 cols (filter (\<lambda>c. fst c = attribute) (md st))))
       (select sig (an_metabolite df)) attribute = Inr recs"
    "add_bonferroni_to_tukeys (tukey_fromiter recs) = Inr t"
proof -
  from assms obtain sig cols levels recs where
    1: "an_significant df = Some sig"
    and 2: "loc_columns (data st) (select sig (an_metabolite df)) = Inr cols"
    and ne: "filter (\<lambda>c. fst c = attribute) (md st) \<noteq> []"
    and 3: "getitem (concat_axis1 cols (filter (\<lambda>c. fst c = attribute) (md st))) attribute
              = Inr levels"
    and 4: "gen_pairwise_tukey lib
       (frame_select (isin levels elements)
          (concat_axis1 cols (filter (\<lambda>c. fst c = attribute) (md st))))
       (select sig (an_metabolite df)) attribute = Inr recs"
    and 5: "add_bonferroni_to_tukeys (tukey_fromiter recs) = Inr t"
    unfolding tukey_def Let_def
    by (auto split: option.splits sum.splits list.splits)
  from getitem_joined_attribute [OF 3 ne] obtain vs where "levels = Strs vs"
    by blast
  with 1 2 3 4 5 show thesis
    by (intro that [of sig cols vs recs]) simp_all
qed

lemma frame_select_isin_rows:
  "list_all2
     (\<lambda>c c2. fst c2 = fst c \<and>
        snd c2 = (case snd c of
                    Nums xs \<Rightarrow> Nums (map snd (filter (\<lambda>r. fst r = x \<or> fst r = y) (zip vs xs)))
                  | Strs ss \<Rightarrow> Strs (map snd (filter (\<lambda>r. fst r = x \<or> fst r = y) (zip vs ss)))))
     dat (frame_select (isin (Strs vs) [x, y]) dat)"
proof -
  have "series_select (isin (Strs vs) [x, y]) s =
          (case s of
             Nums xs \<Rightarrow> Nums (map snd (filter (\<lambda>r. fst r = x \<or> fst r = y) (zip vs xs)))
           | Strs ss \<Rightarrow> Strs (map snd (filter (\<lambda>r. fst r = x \<or> fst r = y) (zip vs ss))))" for s
    by (cases s) (simp_all add: select_map_zip)
  then show ?thesis
    by (simp add: frame_select_def list_all2_map2 list.rel_refl case_prod_beta)
qed

lemma tukey_frame_restricted:
  assumes "tukey lib st df attribute [x, y] = Inr t"
  shows "\<exists>sig cols vs dat2 (recs :: tukey_record list).
           an_significant df = Some sig \<and>
           loc_columns (data st) (select sig (an_metabolite df)) = Inr cols \<and>
           getitem (concat_axis1 cols (filter (\<lambda>c. fst c = attribute) (md st))) attribute
             = Inr (Strs vs) \<and>
           list_all2
             (\<lambda>c c2. fst c2 = fst c \<and>
                snd c2 = (case snd c of
                    Nums xs \<Rightarrow> Nums (map snd (filter (\<lambda>r. fst r = x \<or> fst r = y) (zip vs xs)))
                  | Strs ss \<Rightarrow> Strs (map snd (filter (\<lambda>r. fst r = x \<or> fst r = y) (zip vs ss)))))
             (concat_axis1 cols (filter (\<lambda>c. fst c = attribute) (md st))) dat2 \<and>
           gen_pairwise_tukey lib dat2 (select sig (an_metabolite df)) attribute = Inr recs \<and>
           add_bonferroni_to_tukeys (tukey_fromiter recs) = Inr t"
proof -
  from assms obtain sig cols vs recs where
    1: "an_significant df = Some sig"
    and 2: "loc_columns (data st) (select sig (an_metabolite df)) = Inr cols"
    and 3: "getitem (concat_axis1 cols (filter (\<lambda>c. fst c = attribute) (md st))) attribute
       = Inr (Strs vs)"
    and 4: "gen_pairwise_tukey lib
       (frame_select (isin (Strs vs) [x, y])
          (concat_axis1 cols (filter (\<lambda>c. fst c = attribute) (md st))))
       (select sig (an_metabolite df)) attribute = Inr recs"
    and 5: "add_bonferroni_to_tukeys (tukey_fromiter recs) = Inr t"
    by (rule tukey_frameE)
  show ?thesis
    by (intro exI conjI) (fact 1 2 3 4 5 frame_select_isin_rows)+
qed

text \<open>
  Claim C4. The library reports pairs of distinct levels that occur in the grouping
  column of the table it is given (the hypothesis on \<open>lib\<close>). Then every row of the
  table returned by \<^verbatim>\<open>tukey\<close> for the two requested levels \<open>x\<close> and \<open>y\<close> carries exactly
  these two levels as its labels \<^verbatim>\<open>A\<close> and \<^verbatim>\<open>B\<close>, whatever other levels the attribute
  has. The labels are stored in fields of 100 characters (\<open>U100\<close>, the identity on
  labels of at most 100 characters). The samples are restricted before the library is
  called: the table handed to \<^verbatim>\<open>pg.pairwise_tukey\<close> has the columns of the joined table
  (the significant metabolites and the attribute), and each column holds exactly the
  rows whose level of the attribute is \<open>x\<close> or \<open>y\<close>, in their order.
\<close>

theorem tukey_rows_compare_requested_levels:
  assumes lib: "\<And>df dv between rows r. lib df dv between = Inr rows \<Longrightarrow> r \<in> set rows \<Longrightarrow>
            \<exists>lv. getitem df between = Inr (Strs lv) \<and>
                 lr_A r \<in> set lv \<and> lr_B r \<in> set lv \<and> lr_A r \<noteq> lr_B r"
    and t: "tukey lib st df attribute [x, y] = Inr t"
  shows "length (tk_A t) = length (tk_stats_metabolite t) \<and>
         length (tk_B t) = length (tk_stats_metabolite t) \<and>
         (\<forall>i < length (tk_stats_metabolite t).
            (tk_A t ! i = U100 x \<and> tk_B t ! i = U100 y) \<or>
            (tk_A t ! i = U100 y \<and> tk_B t ! i = U100 x)) \<and>
         (\<exists>sig cols vs dat2 (recs :: tukey_record list).
            an_significant df = Some sig \<and>
            loc_columns (data st) (select sig (an_metabolite df)) = Inr cols \<and>
            getitem (concat_axis1 cols (filter (\<lambda>c. fst c = attribute) (md st))) attribute
              = Inr (Strs vs) \<and>
            list_all2
              (\<lambda>c c2. fst c2 = fst c \<and>
                 snd c2 = (case snd c of
                     Nums xs \<Rightarrow> Nums (map snd (filter (\<lambda>r. fst r = x \<or> fst r = y) (zip vs xs)))
                   | Strs ss \<Rightarrow> Strs (map snd (filter (\<lambda>r. fst r = x \<or> fst r = y) (zip vs ss)))))
              (concat_axis1 cols (filter (\<lambda>c. fst c = attribute) (md st))) dat2 \<and>
            gen_pairwise_tukey lib dat2 (select sig (an_metabolite df)) attribute = Inr recs \<and>
            add_bonferroni_to_tukeys (tukey_fromiter recs) = Inr t)"
proof -
  have "length (tk_A t) = length (tk_stats_metabolite t) \<and>
         length (tk_B t) = length (tk_stats_metabolite t) \<and>
         (\<forall>i < length (tk_stats_metabolite t).
            (tk_A t ! i = U100 x \<and> tk_B t ! i = U100 y) \<or>
            (tk_A t ! i = U100 y \<and> tk_B t ! i = U100 x))"
    by (rule tukey_row_labels [OF _ t]) (rule lib; assumption)
  with tukey_frame_restricted [OF t] show ?thesis
    by simp
qed

theorem tukey_rows_compare_requested_levels_witness:
  "\<exists>t. tukey ex_pg_pairwise_tukey ex_session3
          \<lparr> an_metabolite = [''f2'', ''f1''], an_p = [0.001, 0.02], an_F = [73, 14],
            an_p_bonferroni = Some [0.002, 0.04], an_significant = Some [True, True] \<rparr>
          ''ATTRIBUTE_group'' [''b'', ''c''] = Inr t \<and>
       tk_stats_metabolite t = [''f2'', ''f1''] \<and>
       tk_A t = [''b'', ''b''] \<and> tk_B t = [''c'', ''c''] \<and>
       tk_A t ! 0 = U100 ''b'' \<and> tk_B t ! 0 = U100 ''c'' \<and>
       tk_A t ! 1 = U100 ''b'' \<and> tk_B t ! 1 = U100 ''c'' \<and>
       (\<exists>(recs :: tukey_record list).
          gen_pairwise_tukey ex_pg_pairwise_tukey
            [(''f2'', Nums [2, 3, 8, 9]), (''f1'', Nums [6, 7, 6, 8]),
             (''ATTRIBUTE_group'', Strs [''b'', ''c'', ''b'', ''c''])]
            [''f2'', ''f1''] ''ATTRIBUTE_group'' = Inr recs \<and>
          add_bonferroni_to_tukeys (tukey_fromiter recs) = Inr t)"
proof -
  let ?df = "\<lparr> an_metabolite = [''f2'', ''f1''], an_p = [0.001, 0.02], an_F = [73, 14],
            an_p_bonferroni = Some [0.002, 0.04], an_significant = Some [True, True] \<rparr>"
  let ?t = "\<lparr> tk_stats_metabolite = [''f2'', ''f1''], tk_diff = [- 1, - 1],
           tk_stats_p = [0.001, 0.02],
           tk_stats_p_bonferroni = Some [0.002, 0.04],
           tk_stats_significant = Some [True, True],
           tk_attribute = [''group'', ''group''], tk_A = [''b'', ''b''],
           tk_B = [''c'', ''c''], tk_mean_A = [6, 6], tk_mean_B = [7, 7] \<rparr>"
  have full: "length (tk_A ?t) = length (tk_stats_metabolite ?t) \<and>
         length (tk_B ?t) = length (tk_stats_metabolite ?t) \<and>
         (\<forall>i < length (tk_stats_metabolite ?t).
            (tk_A ?t ! i = U100 ''b'' \<and> tk_B ?t ! i = U100 ''c'') \<or>
            (tk_A ?t ! i = U100 ''c'' \<and> tk_B ?t ! i = U100 ''b'')) \<and>
         (\<exists>sig cols vs dat2 (recs :: tukey_record list).
            an_significant ?df = Some sig \<and>
            loc_columns (data ex_session3) (select sig (an_metabolite ?df)) = Inr cols \<and>
            getitem (concat_axis1 cols (filter (\<lambda>c. fst c = ''ATTRIBUTE_group'') (md ex_session3)))
              ''ATTRIBUTE_group'' = Inr (Strs vs) \<and>
            list_all2
              (\<lambda>c c2. fst c2 = fst c \<and>
                 snd c2 = (case snd c of
                     Nums xs \<Rightarrow> Nums (map snd (filter (\<lambda>r. fst r = ''b'' \<or> fst r = ''c'') (zip vs xs)))
                   | Strs ss \<Rightarrow> Strs (map snd (filter (\<lambda>r. fst r = ''b'' \<or> fst r = ''c'') (zip vs ss)))))
              (concat_axis1 cols (filter (\<lambda>c. fst c = ''ATTRIBUTE_group'') (md ex_session3))) dat2 \<and>
            gen_pairwise_tukey ex_pg_pairwise_tukey dat2 (select sig (an_metabolite ?df))
              ''ATTRIBUTE_group'' = Inr recs \<and>
            add_bonferroni_to_tukeys (tukey_fromiter recs) = Inr ?t)"
    by (rule tukey_rows_compare_requested_levels [OF _ ex_tukey3_eval])
      (rule ex_pg_pairwise_tukey_contract; assumption)
  then obtain sig cols vs dat2 and recs :: "tukey_record list" where
    s: "an_significant ?df = Some sig"
    and c: "loc_columns (data ex_session3) (select sig (an_metabolite ?df)) = Inr cols"
    and g: "getitem (concat_axis1 cols (filter (\<lambda>c. fst c = ''ATTRIBUTE_group'') (md ex_session3)))
              ''ATTRIBUTE_group'' = Inr (Strs vs)"
    and l: "list_all2
              (\<lambda>c c2. fst c2 = fst c \<and>
                 snd c2 = (case snd c of
                     Nums xs \<Rightarrow> Nums (map snd (filter (\<lambda>r. fst r = ''b'' \<or> fst r = ''c'') (zip vs xs)))
                   | Strs ss \<Rightarrow> Strs (map snd (filter (\<lambda>r. fst r = ''b'' \<or> fst r = ''c'') (zip vs ss)))))
              (concat_axis1 cols (filter (\<lambda>c. fst c = ''ATTRIBUTE_group'') (md ex_session3))) dat2"
    and r: "gen_pairwise_tukey ex_pg_pairwise_tukey dat2 (select sig (an_metabolite ?df))
              ''ATTRIBUTE_group'' = Inr recs"
    and a: "add_bonferroni_to_tukeys (tukey_fromiter recs) = Inr ?t"
    by blast
  from s have sig: "sig = [True, True]"
    by simp
  from c have cols: "cols = [(''f2'', [1, 2, 3, 7, 8, 9]), (''f1'', [5, 6, 7, 5, 6, 8])]"
    by (simp add: sig select_def ex_session3_def)
  from g have vs: "vs = [''a'', ''b'', ''c'', ''a'', ''b'', ''c'']"
    by (simp add: cols ex_session3_def concat_axis1_def getitem_def)
  from l have dat2: "dat2 = [(''f2'', Nums [2, 3, 8, 9]), (''f1'', Nums [6, 7, 6, 8]),
             (''ATTRIBUTE_group'', Strs [''b'', ''c'', ''b'', ''c''])]"
    by (simp add: cols vs ex_session3_def concat_axis1_def list_all2_Cons1 prod_eq_iff)
  from r a have "\<exists>(recs :: tukey_record list).
          gen_pairwise_tukey ex_pg_pairwise_tukey
            [(''f2'', Nums [2, 3, 8, 9]), (''f1'', Nums [6, 7, 6, 8]),
             (''ATTRIBUTE_group'', Strs [''b'', ''c'', ''b'', ''c''])]
            [''f2'', ''f1''] ''ATTRIBUTE_group'' = Inr recs \<and>
          add_bonferroni_to_tukeys (tukey_fromiter recs) = Inr ?t"
    by (auto simp: dat2 sig select_def)
  then show ?thesis
    unfolding ex_tukey3_eval by (simp add: U100_def)
qed

section \<open>Paired t-test on groups of different sizes\<close>

lemma group_values_error:
  "group_values df col a gs i = Inl e \<Longrightarrow> e \<in> {KeyError, IndexError, ValueError, TypeError}"
  by (auto simp: group_values_def getitem_def py_index_def
      split: sum.splits list.splits series.splits if_splits)

lemma ttest_loop_error:
  "ttest_loop lib df cols a gs paired = Inl e \<Longrightarrow>
     e \<in> {KeyError, IndexError, ValueError, TypeError} \<or>
     (\<exists>m x y. e = LibraryError m \<and> lib x y paired = Inl m)"
proof (induction cols)
  case Nil
  then show ?case by simp
next
  case (Cons c cols)
  show ?case
  proof (cases "group_values df c a gs 0")
    case (Inl e1)
    with Cons.prems have "e = e1" by simp
    with Inl group_values_error show ?thesis by blast
  next
    case g1: (Inr group1)
    show ?thesis
    proof (cases "group_values df c a gs 1")
      case (Inl e2)
      with Cons.prems g1 have "e = e2" by simp
      with Inl group_values_error show ?thesis by blast
    next
      case g2: (Inr group2)
      show ?thesis
      proof (cases "lib group1 group2 paired")
        case (Inl m)
        with Cons.prems g1 g2 have "e = LibraryError m" by simp
        with Inl show ?thesis by blast
      next
        case (Inr tp)
        with Cons.prems g1 g2 have "ttest_loop lib df cols a gs paired = Inl e"
          by (auto split: prod.splits sum.splits)
        then show ?thesis by (rule Cons.IH)
      qed
    qed
  qed
qed

lemma ex_ttest4_eval:
  "gen_ttest_data ex_pg_ttest ex_session4 ''ATTRIBUTE_group'' [''a'', ''b''] True =
     Inr \<lparr> tt_metabolite = [''f1''], tt_T = [- 0.4], tt_p_val = [0.9], tt_p_bonf = [0.9],
           tt_significance = [False], tt_attribute = [''group''], tt_A = [''a''],
           tt_B = [''b''] \<rparr>"
  by code_simp

lemma ex_ttest4_strict_eval:
  "gen_ttest_data ex_pg_ttest_strict ex_session4 ''ATTRIBUTE_group'' [''a'', ''b''] True =
     Inl (LibraryError ''ValueError'')"
  by code_simp

text \<open>
  Claim C5 says that a paired t-test on groups of different sizes fails with
  UnequalGroupSizeError. In the example the groups have 3 and 4 samples and the paired
  flag is set. \<^verbatim>\<open>gen_ttest_data\<close> hands both vectors to the library: with a library that
  answers, the invocation returns a table; with a library that refuses vectors of
  different lengths, the invocation fails with the error of the library. In neither case
  is the error UnequalGroupSizeError.
\<close>

theorem paired_unequal_groups_no_UnequalGroupSizeError:
  "group_values (concat_axis1 (data ex_session4) (md ex_session4)) ''f1'' ''ATTRIBUTE_group''
     [''a'', ''b''] 0 = Inr [5, 6, 7] \<and>
   group_values (concat_axis1 (data ex_session4) (md ex_session4)) ''f1'' ''ATTRIBUTE_group''
     [''a'', ''b''] 1 = Inr [5, 6, 8, 9] \<and>
   gen_ttest_data ex_pg_ttest ex_session4 ''ATTRIBUTE_group'' [''a'', ''b''] True =
     Inr \<lparr> tt_metabolite = [''f1''], tt_T = [- 0.4], tt_p_val = [0.9], tt_p_bonf = [0.9],
           tt_significance = [False], tt_attribute = [''group''], tt_A = [''a''],
           tt_B = [''b''] \<rparr> \<and>
   gen_ttest_data ex_pg_ttest_strict ex_session4 ''ATTRIBUTE_group'' [''a'', ''b''] True =
     Inl (LibraryError ''ValueError'') \<and>
   gen_ttest_data ex_pg_ttest ex_session4 ''ATTRIBUTE_group'' [''a'', ''b''] True
     \<noteq> Inl UnequalGroupSizeError \<and>
   gen_ttest_data ex_pg_ttest_strict ex_session4 ''ATTRIBUTE_group'' [''a'', ''b''] True
     \<noteq> Inl UnequalGroupSizeError"
  unfolding ex_ttest4_eval ex_ttest4_strict_eval
  by code_simp

text \<open>
  Claim C5, amended. \<^verbatim>\<open>gen_ttest_data\<close> makes no check of the group sizes and never
  fails with UnequalGroupSizeError. When it fails, the error is that of a lookup
  (a missing or repeated column label, fewer than two target groups, no feature column)
  or the error that the call of the library raised.
\<close>

theorem gen_ttest_data_fails_only_on_lookup_or_library_error:
  assumes "gen_ttest_data lib st ttest_attribute target_groups paired = Inl e"
  shows "e \<noteq> UnequalGroupSizeError \<and>
         (e \<in> {KeyError, IndexError, ValueError, TypeError} \<or>
          (\<exists>m x y. e = LibraryError m \<and> lib x y paired = Inl m))"
proof -
  have "e \<in> {KeyError, IndexError, ValueError, TypeError} \<or>
          (\<exists>m x y. e = LibraryError m \<and> lib x y paired = Inl m)"
  proof (cases "ttest_loop lib (concat_axis1 (data st) (md st)) (map fst (data st))
                  ttest_attribute target_groups paired")
    case (Inl e1)
    with assms have "e = e1"
      by (simp add: gen_ttest_data_def)
    with Inl ttest_loop_error show ?thesis by blast
  next
    case (Inr ttest)
    with assms have "e \<in> {IndexError, ValueError}"
      by (auto simp: gen_ttest_data_def Let_def py_index_def split: if_splits sum.splits)
    then show ?thesis by auto
  qed
  then show ?thesis by auto
qed

theorem gen_ttest_data_fails_only_on_lookup_or_library_error_witness:
  "gen_ttest_data ex_pg_ttest_strict ex_session4 ''ATTRIBUTE_group'' [''a'', ''b''] True =
     Inl (LibraryError ''ValueError'') \<and>
   LibraryError ''ValueError'' \<noteq> UnequalGroupSizeError \<and>
   (\<exists>x y. ex_pg_ttest_strict x y True = Inl ''ValueError'')"
  using gen_ttest_data_fails_only_on_lookup_or_library_error [OF ex_ttest4_strict_eval]
    ex_ttest4_strict_eval
  by simp

section \<open>The significance bracket of the boxplot\<close>

lemma loc_p_bonf_row:
  assumes "loc_p_bonf df_ttest metabolite = Inr pvalue"
  shows "\<exists>i. i < length (tt_metabolite df_ttest) \<and> i < length (tt_p_bonf df_ttest) \<and>
             tt_metabolite df_ttest ! i = metabolite \<and> tt_p_bonf df_ttest ! i = pvalue"
proof -
  let ?zs = "zip (tt_metabolite df_ttest) (tt_p_bonf df_ttest)"
  from assms obtain r where
    f: "filter (\<lambda>r. fst r = metabolite) ?zs = [r]" and p: "snd r = pvalue"
    by (auto simp: loc_p_bonf_def split: list.splits)
  have "r \<in> set (filter (\<lambda>r. fst r = metabolite) ?zs)"
    by (simp add: f)
  then have "r \<in> set ?zs" and "fst r = metabolite"
    by simp_all
  with p have "(metabolite, pvalue) \<in> set ?zs"
    by (metis prod.collapse)
  then show ?thesis
    by (auto simp: in_set_zip)
qed

text \<open>
  Claim C7. The bracket symbol is \<open>ns\<close> for \<open>p \<ge> 0.05\<close>, one star for
  \<open>0.01 \<le> p < 0.05\<close>, two stars for \<open>0.001 \<le> p < 0.01\<close> and three stars for
  \<open>p < 0.001\<close>, and the \<open>p\<close> that \<^verbatim>\<open>ttest_boxplot\<close> uses is the value of the column
  \<^verbatim>\<open>p-bonf\<close> in the row of the chosen metabolite, not the raw p-value.
\<close>

theorem boxplot_symbol_of_corrected_p:
  "(0.05 \<le> p \<longrightarrow> symbol_of p = ''ns'') \<and>
   (0.01 \<le> p \<and> p < 0.05 \<longrightarrow> symbol_of p = ''*'') \<and>
   (0.001 \<le> p \<and> p < 0.01 \<longrightarrow> symbol_of p = ''**'') \<and>
   (p < 0.001 \<longrightarrow> symbol_of p = ''***'') \<and>
   (ttest_boxplot_symbol df_ttest metabolite = Inr symbol \<longrightarrow>
      (\<exists>i. i < length (tt_metabolite df_ttest) \<and> i < length (tt_p_bonf df_ttest) \<and>
           tt_metabolite df_ttest ! i = metabolite \<and>
           symbol = symbol_of (tt_p_bonf df_ttest ! i)))"
proof (intro conjI impI)
  assume "ttest_boxplot_symbol df_ttest metabolite = Inr symbol"
  then obtain pvalue where
    l: "loc_p_bonf df_ttest metabolite = Inr pvalue" and s: "symbol = symbol_of pvalue"
    by (auto simp: ttest_boxplot_symbol_def split: sum.splits)
  from loc_p_bonf_row [OF l] s
  show "\<exists>i. i < length (tt_metabolite df_ttest) \<and> i < length (tt_p_bonf df_ttest) \<and>
           tt_metabolite df_ttest ! i = metabolite \<and>
           symbol = symbol_of (tt_p_bonf df_ttest ! i)"
    by auto
qed (simp_all add: symbol_of_def)

theorem boxplot_symbol_of_corrected_p_witness:
  "symbol_of 0.05 = ''ns'' \<and> symbol_of 0.03 = ''*'' \<and> symbol_of 0.01 = ''*'' \<and>
   symbol_of 0.005 = ''**'' \<and> symbol_of 0.001 = ''**'' \<and> symbol_of 0.0001 = ''***'' \<and>
   ttest_boxplot_symbol ex_ttest_table ''f2'' = Inr ''*'' \<and>
   tt_p_val ex_ttest_table ! 2 = 0.0075 \<and> tt_p_bonf ex_ttest_table ! 2 = 0.03"
  using
    boxplot_symbol_of_corrected_p [where p = "0.05" and df_ttest = ex_ttest_table
      and metabolite = "''f2''" and symbol = "''*''"]
    boxplot_symbol_of_corrected_p [where p = "0.03"]
    boxplot_symbol_of_corrected_p [where p = "0.01"]
    boxplot_symbol_of_corrected_p [where p = "0.005"]
    boxplot_symbol_of_corrected_p [where p = "0.001"]
    boxplot_symbol_of_corrected_p [where p = "0.0001"]
  by (simp add: ex_ttest_table_def ttest_boxplot_symbol_def loc_p_bonf_def symbol_of_def)

section \<open>Stale results of the memoised t-test\<close>

lemma ex_cached_first:
  "cached_gen_ttest_data ex_pg_ttest ex_session Map.empty (''ATTRIBUTE_group'', [''a'', ''b''], False) =
     (gen_ttest_data ex_pg_ttest ex_session ''ATTRIBUTE_group'' [''a'', ''b''] False,
      [(''ATTRIBUTE_group'', [''a'', ''b''], False) \<mapsto>
         \<lparr> tt_metabolite = [''f2'', ''f1''], tt_T = [- 7.3, - 0.4],
           tt_p_val = [0.025, 0.9], tt_p_bonf = [0.05, 1],
           tt_significance = [False, False],
           tt_attribute = [''group'', ''group''], tt_A = [''a'', ''a''],
           tt_B = [''b'', ''b''] \<rparr>])"
  by (simp add: cached_gen_ttest_data_def st_cache_data_def ex_ttest_eval)

text \<open>
  Claim C9 on the code. \<^verbatim>\<open>gen_ttest_data\<close> reads the feature table and the metadata from
  the session state, which are not among its parameters. Two sessions with different
  feature tables give different results for the same parameters, and the memoised call
  in the second session, after a call in the first, returns the result of the first.
\<close>

theorem cached_ttest_stale_after_data_change:
  "gen_ttest_data ex_pg_ttest ex_session ''ATTRIBUTE_group'' [''a'', ''b''] False \<noteq>
     gen_ttest_data ex_pg_ttest ex_session2 ''ATTRIBUTE_group'' [''a'', ''b''] False \<and>
   fst (cached_gen_ttest_data ex_pg_ttest ex_session2
          (snd (cached_gen_ttest_data ex_pg_ttest ex_session Map.empty
                  (''ATTRIBUTE_group'', [''a'', ''b''], False)))
          (''ATTRIBUTE_group'', [''a'', ''b''], False)) =
     gen_ttest_data ex_pg_ttest ex_session ''ATTRIBUTE_group'' [''a'', ''b''] False \<and>
   fst (cached_gen_ttest_data ex_pg_ttest ex_session2
          (snd (cached_gen_ttest_data ex_pg_ttest ex_session Map.empty
                  (''ATTRIBUTE_group'', [''a'', ''b''], False)))
          (''ATTRIBUTE_group'', [''a'', ''b''], False)) \<noteq>
     gen_ttest_data ex_pg_ttest ex_session2 ''ATTRIBUTE_group'' [''a'', ''b''] False"
  unfolding ex_cached_first
  by (simp add: cached_gen_ttest_data_def st_cache_data_def ex_ttest_eval ex_ttest2_eval)

section \<open>Blank and sample columns\<close>

lemma loc_columns_names:
  "loc_columns tbl names = Inr cols \<Longrightarrow> set (map fst cols) \<subseteq> set names"
proof (induction names arbitrary: cols)
  case Nil
  then show ?case by simp
next
  case (Cons name names)
  from Cons.prems obtain rest where
    r: "loc_columns tbl names = Inr rest"
    and c: "cols = filter (\<lambda>c. fst c = name) tbl @ rest"
    by (auto split: list.splits sum.splits)
  from Cons.IH [OF r] show ?case
    by (auto simp: c)
qed

lemma md_where_index:
  "md_where m column v = Inr idx \<Longrightarrow> set idx \<subseteq> fst ` set (md_rows m)"
  by (auto simp: md_where_def split: if_splits)

lemma md_loc_index:
  "md_loc m labels = Inr m2 \<Longrightarrow> fst ` set (md_rows m2) \<subseteq> set labels"
  by (auto simp: md_loc_def split: if_splits)

text \<open>
  Claim C10. The columns selected as blanks and the columns selected as samples have no
  sample identifier in common: the blanks are taken among the metadata rows whose
  identifier is not a sample column.
\<close>

theorem blanks_and_samples_disjoint:
  assumes "select_blanks_and_samples ft m sample_column sample_row blank_column blank_row
             = Inr (blanks, samples)"
  shows "set (map fst blanks) \<inter> set (map fst samples) = {}"
proof -
  from assms obtain sample_index non_samples_md blank_index where
    nm: "md_loc m (filter (\<lambda>index. index \<notin> set (map fst samples)) (map fst (md_rows m)))
           = Inr non_samples_md"
    and bi: "md_where non_samples_md blank_column blank_row = Inr blank_index"
    and bl: "loc_columns ft blank_index = Inr blanks"
    by (auto simp: select_blanks_and_samples_def split: sum.splits)
  have "set (map fst blanks) \<subseteq> set blank_index"
    using bl by (rule loc_columns_names)
  also have "\<dots> \<subseteq> fst ` set (md_rows non_samples_md)"
    using bi by (rule md_where_index)
  also have "\<dots> \<subseteq> set (filter (\<lambda>index. index \<notin> set (map fst samples)) (map fst (md_rows m)))"
    using nm by (rule md_loc_index)
  finally show ?thesis
    by auto
qed

lemma ex_select_eval:
  "select_blanks_and_samples ex_ft ex_md ''ATTRIBUTE_type'' ''sample'' ''ATTRIBUTE_type'' ''blank''
     = Inr ([(''b1'', [1, 2, 0])], [(''s1'', [10, 0, 7]), (''s2'', [12, 3, 0])])"
  by code_simp

theorem blanks_and_samples_disjoint_witness:
  "select_blanks_and_samples ex_ft ex_md ''ATTRIBUTE_type'' ''sample'' ''ATTRIBUTE_type'' ''blank''
     = Inr ([(''b1'', [1, 2, 0])], [(''s1'', [10, 0, 7]), (''s2'', [12, 3, 0])]) \<and>
   set (map fst [(''b1'', [1, 2, 0::real])]) \<inter>
     set (map fst [(''s1'', [10, 0, 7::real]), (''s2'', [12, 3, 0])]) = {}"
  using blanks_and_samples_disjoint [OF ex_select_eval] ex_select_eval
  by simp


section \<open>Imputation of missing values\<close>

lemma get_cutoff_LOD_positive:
  assumes nonneg: "\<forall>col \<in> set ft. \<forall>v \<in> set (snd col). 0 \<le> v"
    and c: "get_cutoff_LOD ft = Inr cutoff_LOD"
  shows "0 < cutoff_LOD"
proof -
  let ?nz = "filter (\<lambda>v. v \<noteq> 0) (concat (map snd ft))"
  have ne: "?nz \<noteq> []"
  proof
    assume "?nz = []"
    with c show False
      by (simp add: get_cutoff_LOD_def)
  qed
  with c have m: "cutoff_LOD = Min (set ?nz)"
    by (simp add: get_cutoff_LOD_def)
  from ne have "set ?nz \<noteq> {}"
    by (simp only: set_empty not_False_eq_True)
  then have "Min (set ?nz) \<in> set ?nz"
    by (rule Min_in [OF finite_set])
  with m have "cutoff_LOD \<in> set ?nz"
    by simp
  then have "cutoff_LOD \<noteq> 0" and "\<exists>col \<in> set ft. cutoff_LOD \<in> set (snd col)"
    by auto
  with nonneg have "0 \<le> cutoff_LOD"
    by auto
  with \<open>cutoff_LOD \<noteq> 0\<close> show ?thesis
    by simp
qed

lemma impute_cells_spec:
  assumes "0 < c" and "\<forall>k. 0 \<le> rng k \<and> rng k < 1"
  shows "list_all2 (\<lambda>v v2. if v = 0 then 0 \<le> v2 \<and> v2 < c else v2 = v)
           vs (fst (impute_cells rng c k vs))"
proof (induction vs arbitrary: k)
  case Nil
  then show ?case by simp
next
  case (Cons v vs)
  show ?case
  proof (cases "v = 0")
    case True
    obtain vs2 k2 where i: "impute_cells rng c (Suc k) vs = (vs2, k2)"
      by (cases "impute_cells rng c (Suc k) vs")
    from assms have "0 \<le> rng k * c" and "rng k * c < c"
      by (simp_all add: mult_less_cancel_right2)
    with Cons.IH [of "Suc k"] i True show ?thesis
      by simp
  next
    case False
    obtain vs2 k2 where i: "impute_cells rng c k vs = (vs2, k2)"
      by (cases "impute_cells rng c k vs")
    with Cons.IH [of k] False show ?thesis
      by simp
  qed
qed

lemma impute_columns_spec:
  assumes "0 < c" and "\<forall>k. 0 \<le> rng k \<and> rng k < 1"
  shows "list_all2 (\<lambda>col col2. fst col2 = fst col \<and>
             list_all2 (\<lambda>v v2. if v = 0 then 0 \<le> v2 \<and> v2 < c else v2 = v) (snd col) (snd col2))
           ft (impute_columns rng c k ft)"
proof (induction ft arbitrary: k)
  case Nil
  then show ?case by simp
next
  case (Cons col ft)
  obtain vs2 k2 where i: "impute_cells rng c k (snd col) = (vs2, k2)"
    by (cases "impute_cells rng c k (snd col)")
  from impute_cells_spec [OF assms, of "snd col" k] i
  have "list_all2 (\<lambda>v v2. if v = 0 then 0 \<le> v2 \<and> v2 < c else v2 = v) (snd col) vs2"
    by simp
  with Cons.IH [of k2] i show ?case
    by simp
qed

lemma ex_imputation_eval:
  "imputation_step ex_rng ex_ft True =
     Inr (25, 1, [(''s1'', [10, 1 / 2, 7]), (''s2'', [12, 3, 1 / 4]), (''b1'', [1, 2, 1 / 2]),
                  (''p1'', [5, 5, 5])])"
  by (simp add: imputation_step_def get_cutoff_LOD_def missing_percentage_def ex_ft_def
      impute_missing_values_def ex_rng_def Let_def)

text \<open>
  Claim C8. For a feature table with non-negative intensities on which the limit of
  detection can be computed, the limit is strictly positive; imputation keeps the column
  names and the shape, replaces every zero cell by a value in \<open>[0, cutoff_LOD)\<close> and
  leaves every other cell unchanged; and the metric of missing values that the page
  displays is 100 times the number of zero cells of the table before imputation,
  divided by the number of its cells.
\<close>

theorem imputation_fills_zero_cells_below_cutoff:
  assumes "\<forall>col \<in> set ft. \<forall>v \<in> set (snd col). 0 \<le> v"
    and "\<forall>k. 0 \<le> rng k \<and> rng k < 1"
    and "imputation_step rng ft True = Inr (metric, cutoff_LOD, ft2)"
  shows "0 < cutoff_LOD \<and>
         list_all2 (\<lambda>col col2. fst col2 = fst col \<and>
             list_all2 (\<lambda>v v2. if v = 0 then 0 \<le> v2 \<and> v2 < cutoff_LOD else v2 = v)
               (snd col) (snd col2)) ft ft2 \<and>
         metric = 100 * real (length (filter (\<lambda>v. v = 0) (concat (map snd ft))))
                    / real (length (concat (map snd ft)))"
proof -
  from assms(3) have c: "get_cutoff_LOD ft = Inr cutoff_LOD"
    and m: "metric = missing_percentage ft"
    and f: "ft2 = impute_missing_values rng ft cutoff_LOD"
    by (auto simp: imputation_step_def Let_def split: sum.splits)
  from assms(1) c have pos: "0 < cutoff_LOD"
    by (rule get_cutoff_LOD_positive)
  from m have "metric = 100 * real (length (filter (\<lambda>v. v = 0) (concat (map snd ft))))
                    / real (length (concat (map snd ft)))"
    by (simp add: missing_percentage_def)
  with impute_columns_spec [OF pos assms(2), of ft 0] pos show ?thesis
    by (simp add: f impute_missing_values_def)
qed

theorem imputation_fills_zero_cells_below_cutoff_witness:
  "imputation_step ex_rng ex_ft True =
     Inr (25, 1, [(''s1'', [10, 1 / 2, 7]), (''s2'', [12, 3, 1 / 4]), (''b1'', [1, 2, 1 / 2]),
                  (''p1'', [5, 5, 5])]) \<and>
   length (filter (\<lambda>v. v = 0) (concat (map snd ex_ft))) = 3 \<and>
   length (concat (map snd ex_ft)) = 12 \<and>
   (25::real) = 100 * real (3::nat) / real (12::nat) \<and> (0::real) < 1"
proof -
  have nonneg: "\<forall>col \<in> set ex_ft. \<forall>v \<in> set (snd col). 0 \<le> v"
    by (simp add: ex_ft_def)
  have rng: "\<forall>k. 0 \<le> ex_rng k \<and> ex_rng k < 1"
    by (simp add: ex_rng_def)
  have cells: "length (filter (\<lambda>v. v = 0) (concat (map snd ex_ft))) = 3"
    "length (concat (map snd ex_ft)) = 12"
    by (simp_all add: ex_ft_def)
  from imputation_fills_zero_cells_below_cutoff [OF nonneg rng ex_imputation_eval] ex_imputation_eval cells
  show ?thesis
    by simp
qed

end
